theory Spec2Isabelle
  imports Complex_Main "HOL-Library.Word" "HOL-Library.Char_ord" "HOL-Library.List_Lexorder"
    "HOL-Library.Product_Lexorder" "HOL-Library.Code_Target_Numeral"
begin

unbundle bit_operations_syntax

section \<open>Python values\<close>

text \<open>
  The services pass untyped dictionaries around (policy rules, ledger payloads). They are
  modelled by the values \<open>json.loads\<close> produces. A finite Python float is represented
  by a rational number: comparisons are exact, as they are in Python between floats and
  integers, and arithmetic is the exact arithmetic that the binary operations round.
  NaN and the infinities are not represented. A string is a list of code points below
  256.
\<close>

datatype json =
    JNull
  | JBool bool
  | JInt int
  | JFloat rat
  | JStr string
  | JList "json list"
  | JObj "(string \<times> json) list"

text \<open>A \<open>dict\<close> with string keys, in insertion order: \<open>d.get(k, default)\<close>,
  \<open>d[k] = v\<close>, and a dictionary display \<open>{k1: v1, ...}\<close>, where a repeated key keeps
  its first place and takes the last value.\<close>

type_synonym pydict = "(string \<times> json) list"

definition dict_get :: "pydict \<Rightarrow> string \<Rightarrow> json \<Rightarrow> json" where
  "dict_get d k dflt = (case map_of d k of Some v \<Rightarrow> v | None \<Rightarrow> dflt)"

fun dict_set :: "pydict \<Rightarrow> string \<Rightarrow> json \<Rightarrow> pydict" where
  "dict_set [] k v = [(k, v)]"
| "dict_set ((k', v') # d) k v = (if k' = k then (k, v) # d else (k', v') # dict_set d k v)"

definition dict_display :: "(string \<times> json) list \<Rightarrow> pydict" where
  "dict_display items = foldl (\<lambda>d (k, v). dict_set d k v) [] items"

text \<open>The exceptions the modelled code raises or lets through.\<close>

datatype pyerror =
    TypeError
  | ValueError
  | ExpiredSignatureError
  | InvalidTokenError
  | InvalidKeyError
  | ValidationError
  | DatabaseError

text \<open>The number a JSON value compares as; \<open>bool\<close> is a subclass of \<open>int\<close>.\<close>

fun num_of_json :: "json \<Rightarrow> rat option" where
  "num_of_json (JBool b) = Some (if b then 1 else 0)"
| "num_of_json (JInt i) = Some (of_int i)"
| "num_of_json (JFloat f) = Some f"
| "num_of_json _ = None"

text \<open>\<open>x <= v\<close> and \<open>x >= v\<close> for a float \<open>x\<close> and a value of a dictionary: a
  TypeError unless the value is a number.\<close>

definition float_le_json :: "rat \<Rightarrow> json \<Rightarrow> pyerror + bool" where
  "float_le_json x v =
     (case num_of_json v of Some n \<Rightarrow> Inr (x \<le> n) | None \<Rightarrow> Inl TypeError)"

definition float_ge_json :: "rat \<Rightarrow> json \<Rightarrow> pyerror + bool" where
  "float_ge_json x v =
     (case num_of_json v of Some n \<Rightarrow> Inr (x \<ge> n) | None \<Rightarrow> Inl TypeError)"

text \<open>\<open>s in v\<close> for a string \<open>s\<close>: membership in a list, substring of a string, key of
  a dictionary, a TypeError on anything else.\<close>

fun contains :: "string \<Rightarrow> string \<Rightarrow> bool" where
  "contains s [] = (s = [])"
| "contains s (c # cs) = (take (length s) (c # cs) = s \<or> contains s cs)"

fun str_in_json :: "string \<Rightarrow> json \<Rightarrow> pyerror + bool" where
  "str_in_json s (JList xs) = Inr (JStr s \<in> set xs)"
| "str_in_json s (JStr t) = Inr (contains s t)"
| "str_in_json s (JObj kvs) = Inr (s \<in> fst ` set kvs)"
| "str_in_json s _ = Inl TypeError"

text \<open>\<open>round(x, n)\<close>: to the nearest multiple of \<open>10^-n\<close>, a tie to the even one.\<close>

definition round_half_even :: "rat \<Rightarrow> int" where
  "round_half_even x =
     (let f = \<lfloor>x\<rfloor>; r = x - of_int f in
      if r < 1 / 2 then f else if r > 1 / 2 then f + 1 else if even f then f else f + 1)"

definition py_round :: "rat \<Rightarrow> nat \<Rightarrow> rat" where
  "py_round x n = of_int (round_half_even (x * 10 ^ n)) / 10 ^ n"

subsection \<open>Decimal text\<close>

definition digit_char :: "nat \<Rightarrow> char" where
  "digit_char n = char_of (48 + n)"

fun str_nat :: "nat \<Rightarrow> string" where
  "str_nat n = (if n < 10 then [digit_char n] else str_nat (n div 10) @ [digit_char (n mod 10)])"

definition str_int :: "int \<Rightarrow> string" where
  "str_int i = (if i < 0 then CHR ''-'' # str_nat (nat (- i)) else str_nat (nat i))"

text \<open>\<open>s.zfill(w)\<close> for a string of digits.\<close>

definition zfill :: "nat \<Rightarrow> string \<Rightarrow> string" where
  "zfill w s = replicate (w - length s) CHR ''0'' @ s"

subsection \<open>datetime\<close>

text \<open>A \<open>datetime\<close> holds calendar fields; it is aware (UTC) when made by
  \<open>datetime.now(timezone.utc)\<close> and naive when made by \<open>datetime.utcnow()\<close>.\<close>

record datetime =
  year :: nat
  month :: nat
  day :: nat
  hour :: nat
  minute :: nat
  second :: nat
  microsecond :: nat
  tz_utc :: bool

definition isoformat :: "datetime \<Rightarrow> string" where
  "isoformat d =
     zfill 4 (str_nat (year d)) @ ''-'' @ zfill 2 (str_nat (month d)) @ ''-'' @
     zfill 2 (str_nat (day d)) @ ''T'' @ zfill 2 (str_nat (hour d)) @ '':'' @
     zfill 2 (str_nat (minute d)) @ '':'' @ zfill 2 (str_nat (second d)) @
     (if microsecond d = 0 then '''' else ''.'' @ zfill 6 (str_nat (microsecond d))) @
     (if tz_utc d then ''+00:00'' else '''')"

text \<open>\<open>d.strftime('%Y.%m.%d')\<close>.\<close>

definition strftime_Ymd :: "datetime \<Rightarrow> string" where
  "strftime_Ymd d =
     zfill 4 (str_nat (year d)) @ ''.'' @ zfill 2 (str_nat (month d)) @ ''.'' @
     zfill 2 (str_nat (day d))"

text \<open>Days from 1970-01-01 to a date of the proleptic Gregorian calendar, and
  \<open>d.timestamp()\<close> of an aware UTC datetime.\<close>

definition days_from_civil :: "nat \<Rightarrow> nat \<Rightarrow> nat \<Rightarrow> int" where
  "days_from_civil y m d =
     (let y' = (if m \<le> 2 then int y - 1 else int y);
          era = y' div 400;
          yoe = y' - era * 400;
          mp = (if m > 2 then int m - 3 else int m + 9);
          doy = (153 * mp + 2) div 5 + int d - 1;
          doe = yoe * 365 + yoe div 4 - yoe div 100 + doy
      in era * 146097 + doe - 719468)"

definition timestamp :: "datetime \<Rightarrow> rat" where
  "timestamp d =
     of_int (days_from_civil (year d) (month d) (day d) * 86400
             + int (hour d) * 3600 + int (minute d) * 60 + int (second d))
     + of_nat (microsecond d) / 1000000"

text \<open>\<open>int(x)\<close> of a float truncates towards zero.\<close>

definition py_int :: "rat \<Rightarrow> int" where
  "py_int x = (if x \<ge> 0 then \<lfloor>x\<rfloor> else \<lceil>x\<rceil>)"

text \<open>The order of two datetimes of the same kind (\<open>ORDER BY timestamp\<close>).\<close>

definition datetime_key :: "datetime \<Rightarrow> nat \<times> nat \<times> nat \<times> nat \<times> nat \<times> nat \<times> nat" where
  "datetime_key d = (year d, month d, day d, hour d, minute d, second d, microsecond d)"

section \<open>json.dumps and hashlib.sha256\<close>

subsection \<open>\<open>json.dumps(value, sort_keys=True)\<close>\<close>

text \<open>The default separators and \<open>ensure_ascii\<close>: every character outside the
  printable ASCII range is written as an escape.\<close>

definition hex_char :: "nat \<Rightarrow> char" where
  "hex_char n = ''0123456789abcdef'' ! (n mod 16)"

definition escape_char :: "char \<Rightarrow> string" where
  "escape_char c =
     (if c = CHR ''\"'' then [CHR 0x5C, CHR ''\"'']
      else if c = CHR 0x5C then [CHR 0x5C, CHR 0x5C]
      else if c = CHR 0x0A then [CHR 0x5C, CHR ''n'']
      else if c = CHR 0x0D then [CHR 0x5C, CHR ''r'']
      else if c = CHR 0x09 then [CHR 0x5C, CHR ''t'']
      else if c = CHR 0x08 then [CHR 0x5C, CHR ''b'']
      else if c = CHR 0x0C then [CHR 0x5C, CHR ''f'']
      else if (of_char c :: nat) < 32 \<or> (of_char c :: nat) > 126 then
        [CHR 0x5C, CHR ''u'', CHR ''0'', CHR ''0'',
         hex_char ((of_char c :: nat) div 16), hex_char (of_char c :: nat)]
      else [c])"

definition json_string :: "string \<Rightarrow> string" where
  "json_string s = [CHR ''\"''] @ concat (map escape_char s) @ [CHR ''\"'']"

text \<open>
  \<open>float.__repr__\<close>: the digits of the number and the place of the decimal point,
  in positional notation when the point lies within the digits written for magnitudes
  from \<open>1e-4\<close> up to \<open>1e16\<close>, and in exponent notation otherwise. The digits are those
  of the number rounded to 17 significant digits, without trailing zeros: for a float
  that is a decimal of at most 15 significant digits these are the digits Python prints.
\<close>

fun strip_zeros :: "nat \<Rightarrow> nat" where
  "strip_zeros n = (if n = 0 \<or> n mod 10 \<noteq> 0 then n else strip_zeros (n div 10))"

text \<open>\<open>decimal_point fuel a\<close> is the \<open>p\<close> with \<open>10^(p-1) \<le> a < 10^p\<close> for a positive
  \<open>a\<close>; the search below 1 stops after \<open>fuel\<close> places (no float is that small).\<close>

fun leading_zeros :: "nat \<Rightarrow> rat \<Rightarrow> nat" where
  "leading_zeros 0 a = 0"
| "leading_zeros (Suc fuel) a = (if a * 10 < 1 then Suc (leading_zeros fuel (a * 10)) else 0)"

definition decimal_point :: "rat \<Rightarrow> int" where
  "decimal_point a =
     (if a \<ge> 1 then int (length (str_nat (nat \<lfloor>a\<rfloor>))) else - int (leading_zeros 400 a))"

definition scale10 :: "rat \<Rightarrow> int \<Rightarrow> rat" where
  "scale10 a k = (if k \<ge> 0 then a * 10 ^ nat k else a / 10 ^ nat (- k))"

definition float_repr :: "rat \<Rightarrow> string" where
  "float_repr x =
     (if x = 0 then ''0.0''
      else
        let a = \<bar>x\<bar>;
            p0 = decimal_point a;
            n0 = nat (round_half_even (scale10 a (17 - p0)));
            p = (if n0 \<ge> 10 ^ 17 then p0 + 1 else p0);
            ds = str_nat (strip_zeros n0);
            n = int (length ds);
            sign = (if x < 0 then ''-'' else '''')
        in sign @
           (if - 4 < p \<and> p \<le> 16 then
              (if p \<le> 0 then ''0.'' @ replicate (nat (- p)) CHR ''0'' @ ds
               else if p \<ge> n then ds @ replicate (nat (p - n)) CHR ''0'' @ ''.0''
               else take (nat p) ds @ ''.'' @ drop (nat p) ds)
            else
              take 1 ds @ (if n > 1 then ''.'' @ drop 1 ds else '''') @ ''e'' @
              (if p - 1 < 0 then ''-'' else ''+'') @ zfill 2 (str_nat (nat \<bar>p - 1\<bar>))))"

text \<open>Items of a dictionary are written in the order of their keys, at every depth.\<close>

fun intercalate :: "string \<Rightarrow> string list \<Rightarrow> string" where
  "intercalate sep [] = ''''"
| "intercalate sep [x] = x"
| "intercalate sep (x # y # ys) = x @ sep @ intercalate sep (y # ys)"

fun json_dumps :: "json \<Rightarrow> string" where
  "json_dumps JNull = ''null''"
| "json_dumps (JBool b) = (if b then ''true'' else ''false'')"
| "json_dumps (JInt i) = str_int i"
| "json_dumps (JFloat x) = float_repr x"
| "json_dumps (JStr s) = json_string s"
| "json_dumps (JList xs) = ''['' @ intercalate '', '' (map json_dumps xs) @ '']''"
| "json_dumps (JObj kvs) =
     ''{'' @ intercalate '', ''
        (map (\<lambda>kv. json_string (fst kv) @ '': '' @ snd kv)
           (sort_key fst (map (\<lambda>kv. (fst kv, json_dumps (snd kv))) kvs))) @ ''}''"

declare json_dumps.simps [simp del]

subsection \<open>\<open>hashlib.sha256(data).hexdigest()\<close>\<close>

text \<open>SHA-256 over 32-bit words. The round constants and the initial hash value are
  the leading 32 bits of the fractional parts of the cube roots of the first 64 primes
  and of the square roots of the first 8, written in decimal.\<close>

type_synonym w32 = "32 word"

definition rotr :: "nat \<Rightarrow> w32 \<Rightarrow> w32" where
  "rotr n x = (drop_bit n x) OR (push_bit (32 - n) x)"

definition sha_ch :: "w32 \<Rightarrow> w32 \<Rightarrow> w32 \<Rightarrow> w32" where
  "sha_ch x y z = (x AND y) XOR (NOT x AND z)"

definition sha_maj :: "w32 \<Rightarrow> w32 \<Rightarrow> w32 \<Rightarrow> w32" where
  "sha_maj x y z = (x AND y) XOR (x AND z) XOR (y AND z)"

definition big_sigma0 :: "w32 \<Rightarrow> w32" where
  "big_sigma0 x = rotr 2 x XOR rotr 13 x XOR rotr 22 x"

definition big_sigma1 :: "w32 \<Rightarrow> w32" where
  "big_sigma1 x = rotr 6 x XOR rotr 11 x XOR rotr 25 x"

definition small_sigma0 :: "w32 \<Rightarrow> w32" where
  "small_sigma0 x = rotr 7 x XOR rotr 18 x XOR drop_bit 3 x"

definition small_sigma1 :: "w32 \<Rightarrow> w32" where
  "small_sigma1 x = rotr 17 x XOR rotr 19 x XOR drop_bit 10 x"

definition round_constants :: "w32 list" where
  "round_constants = [
     1116352408, 1899447441, 3049323471, 3921009573, 961987163, 1508970993,
     2453635748, 2870763221, 3624381080, 310598401, 607225278, 1426881987,
     1925078388, 2162078206, 2614888103, 3248222580, 3835390401, 4022224774,
     264347078, 604807628, 770255983, 1249150122, 1555081692, 1996064986,
     2554220882, 2821834349, 2952996808, 3210313671, 3336571891, 3584528711,
     113926993, 338241895, 666307205, 773529912, 1294757372, 1396182291,
     1695183700, 1986661051, 2177026350, 2456956037, 2730485921, 2820302411,
     3259730800, 3345764771, 3516065817, 3600352804, 4094571909, 275423344,
     430227734, 506948616, 659060556, 883997877, 958139571, 1322822218,
     1537002063, 1747873779, 1955562222, 2024104815, 2227730452, 2361852424,
     2428436474, 2756734187, 3204031479, 3329325298]"

definition initial_hash :: "w32 list" where
  "initial_hash = [1779033703, 3144134277, 1013904242, 2773480762,
                   1359893119, 2600822924, 528734635, 1541459225]"

text \<open>The message schedule, most recent word first: \<open>ws ! 1\<close> is \<open>W(t-2)\<close>.\<close>

fun schedule :: "nat \<Rightarrow> w32 list \<Rightarrow> w32 list" where
  "schedule 0 ws = ws"
| "schedule (Suc n) ws =
     schedule n ((small_sigma1 (ws ! 1) + ws ! 6 + small_sigma0 (ws ! 14) + ws ! 15) # ws)"

fun rounds :: "w32 list \<Rightarrow> w32 list \<Rightarrow> w32 list \<Rightarrow> w32 list" where
  "rounds [a, b, c, d, e, f, g, h] (k # ks) (w # ws) =
     (let t1 = h + big_sigma1 e + sha_ch e f g + k + w;
          t2 = big_sigma0 a + sha_maj a b c
      in rounds [t1 + t2, a, b, c, d + t1, e, f, g] ks ws)"
| "rounds st ks ws = st"

definition compress :: "w32 list \<Rightarrow> w32 list \<Rightarrow> w32 list" where
  "compress st block =
     map2 (+) st (rounds st round_constants (rev (schedule 48 (rev block))))"

fun be32 :: "8 word list \<Rightarrow> w32 list" where
  "be32 (a # b # c # d # rest) =
     (push_bit 24 (ucast a) OR push_bit 16 (ucast b) OR push_bit 8 (ucast c) OR ucast d)
       # be32 rest"
| "be32 bs = []"

definition pad :: "8 word list \<Rightarrow> 8 word list" where
  "pad m =
     (let l = length m; z = (55 + 64 - l mod 64) mod 64
      in m @ [128] @ replicate z 0 @
         map (\<lambda>i. ucast (drop_bit (8 * (7 - i)) (of_nat (8 * l) :: 64 word))) [0..<8])"

fun blocks :: "nat \<Rightarrow> w32 list \<Rightarrow> w32 list list" where
  "blocks 0 ws = []"
| "blocks (Suc n) ws = take 16 ws # blocks n (drop 16 ws)"

definition sha256_words :: "8 word list \<Rightarrow> w32 list" where
  "sha256_words m =
     (let ws = be32 (pad m) in foldl compress initial_hash (blocks (length ws div 16) ws))"

definition hex32 :: "w32 \<Rightarrow> string" where
  "hex32 w = map (\<lambda>i. hex_char (unat (drop_bit (4 * (7 - i)) w))) [0..<8]"

text \<open>The text hashed is ASCII (\<open>json.dumps\<close> escapes the rest), so \<open>.encode()\<close> is
  one byte for each character.\<close>

definition sha256_hexdigest :: "string \<Rightarrow> string" where
  "sha256_hexdigest s =
     concat (map hex32 (sha256_words (map (\<lambda>c. of_nat (of_char c)) s)))"

section \<open>Passports (identity-service/passport.py)\<close>

subsection \<open>The JWT library\<close>

text \<open>
  PyJWT is modelled symbolically. A key is a shared secret or one half of an RSA key
  pair, named by a number. A token is either the serialisation of a payload signed with a
  key under an algorithm, or some other string. Decoding checks the algorithm, then the
  signature against the verification key, then the expiry against the clock; a token
  whose signature verifies was written by \<open>issue\<close>, so its payload has the fields
  \<open>issue\<close> writes.
\<close>

datatype algorithm = HS256 | RS256

datatype jwt_key = Secret string | RsaPrivatePem nat | RsaPublicPem nat

record ag_claims =
  ag_name :: string
  ag_role :: string
  ag_tier :: string
  ag_trust_score :: rat
  ag_authority_limit :: rat
  ag_allowed_environments :: "string list"
  ag_dna_fingerprint :: string

record jwt_payload =
  jwt_sub :: string
  jwt_jti :: string
  jwt_iss :: string
  jwt_iat :: int
  jwt_exp :: int
  jwt_ag :: ag_claims

datatype token = Jwt algorithm jwt_key jwt_payload | NotAJwt string

fun can_sign :: "algorithm \<Rightarrow> jwt_key \<Rightarrow> bool" where
  "can_sign HS256 (Secret s) = True"
| "can_sign RS256 (RsaPrivatePem n) = True"
| "can_sign a k = False"

fun can_verify :: "algorithm \<Rightarrow> jwt_key \<Rightarrow> bool" where
  "can_verify HS256 (Secret s) = True"
| "can_verify RS256 (RsaPublicPem n) = True"
| "can_verify a k = False"

fun signature_ok :: "algorithm \<Rightarrow> jwt_key \<Rightarrow> jwt_key \<Rightarrow> bool" where
  "signature_ok HS256 (Secret s) (Secret s') = (s = s')"
| "signature_ok RS256 (RsaPrivatePem n) (RsaPublicPem n') = (n = n')"
| "signature_ok a k k' = False"

definition jwt_encode :: "jwt_payload \<Rightarrow> jwt_key \<Rightarrow> algorithm \<Rightarrow> pyerror + token" where
  "jwt_encode payload k a = (if can_sign a k then Inr (Jwt a k payload) else Inl InvalidKeyError)"

text \<open>\<open>jwt.decode(token, key, algorithms=[a], options={"verify_exp": True})\<close> at the
  clock reading \<open>now\<close> (seconds since the epoch).\<close>

fun jwt_decode :: "token \<Rightarrow> jwt_key \<Rightarrow> algorithm \<Rightarrow> rat \<Rightarrow> pyerror + jwt_payload" where
  "jwt_decode (NotAJwt s) k a now = Inl InvalidTokenError"
| "jwt_decode (Jwt a' k' payload) k a now =
     (if a' \<noteq> a then Inl InvalidTokenError
      else if \<not> can_verify a k then Inl InvalidKeyError
      else if \<not> signature_ok a k' k then Inl InvalidTokenError
      else if of_int (jwt_exp payload) \<le> now then Inl ExpiredSignatureError
      else Inr payload)"

subsection \<open>AgentPassport and PassportService\<close>

text \<open>An \<open>AgentPassport\<close> after \<open>__post_init__\<close>: \<open>expires_at\<close> is set.\<close>

record AgentPassport =
  ap_agent_id :: string
  ap_agent_name :: string
  ap_agent_role :: string
  ap_tier :: string
  ap_trust_score :: rat
  ap_allowed_environments :: "string list"
  ap_dna_fingerprint :: string
  ap_authority_limit :: rat
  ap_issuer :: string
  ap_jti :: string
  ap_issued_at :: datetime
  ap_expires_at :: datetime
  ap_revoked :: bool

record PassportService =
  ps_private_key :: jwt_key
  ps_public_key :: jwt_key
  ps_algorithm :: algorithm
  ps_token_ttl_hours :: nat
  ps_revocation_set :: "string set"

definition new_PassportService :: "jwt_key \<Rightarrow> jwt_key \<Rightarrow> algorithm \<Rightarrow> nat \<Rightarrow> PassportService" where
  "new_PassportService private_key public_key a ttl =
     \<lparr>ps_private_key = private_key, ps_public_key = public_key, ps_algorithm = a,
      ps_token_ttl_hours = ttl, ps_revocation_set = {}\<rparr>"

definition issue_payload :: "AgentPassport \<Rightarrow> datetime \<Rightarrow> jwt_payload" where
  "issue_payload passport now =
     \<lparr>jwt_sub = ap_agent_id passport,
      jwt_jti = ap_jti passport,
      jwt_iss = ap_issuer passport,
      jwt_iat = py_int (timestamp now),
      jwt_exp = py_int (timestamp (ap_expires_at passport)),
      jwt_ag = \<lparr>ag_name = ap_agent_name passport,
            ag_role = ap_agent_role passport,
            ag_tier = ap_tier passport,
            ag_trust_score = py_round (ap_trust_score passport) 4,
            ag_authority_limit = ap_authority_limit passport,
            ag_allowed_environments = ap_allowed_environments passport,
            ag_dna_fingerprint = ap_dna_fingerprint passport\<rparr>\<rparr>"

definition issue :: "PassportService \<Rightarrow> AgentPassport \<Rightarrow> datetime \<Rightarrow> pyerror + token" where
  "issue self passport now =
     jwt_encode (issue_payload passport now) (ps_private_key self) (ps_algorithm self)"

definition verify :: "PassportService \<Rightarrow> token \<Rightarrow> datetime \<Rightarrow> pyerror + jwt_payload" where
  "verify self tok now =
     (case jwt_decode tok (ps_public_key self) (ps_algorithm self) (timestamp now) of
        Inl e \<Rightarrow> Inl e
      | Inr decoded \<Rightarrow>
          if jwt_jti decoded \<in> ps_revocation_set self then Inl ValueError else Inr decoded)"

definition revoke :: "PassportService \<Rightarrow> string \<Rightarrow> PassportService" where
  "revoke self j = self\<lparr>ps_revocation_set := insert j (ps_revocation_set self)\<rparr>"

text \<open>\<open>rotate\<close>: whatever \<open>verify\<close> raises is swallowed, and then nothing is
  revoked; the new passport is issued in either case.\<close>

definition rotate_passport ::
  "PassportService \<Rightarrow> token \<Rightarrow> AgentPassport \<Rightarrow> datetime
     \<Rightarrow> (pyerror + token) \<times> PassportService" where
  "rotate_passport self old_token new_passport now =
     (let self' = (case verify self old_token now of
                     Inr old_decoded \<Rightarrow> revoke self (jwt_jti old_decoded)
                   | Inl e \<Rightarrow> self)
      in (issue self' new_passport now, self'))"

definition is_revoked :: "PassportService \<Rightarrow> string \<Rightarrow> bool" where
  "is_revoked self j = (j \<in> ps_revocation_set self)"

section \<open>Edge gateway: passport verifier (edge-gateway/identity/passport\_verifier.py)\<close>

text \<open>\<open>claims\<close> is the decoded payload, or \<open>None\<close> for the empty dictionary the
  failing results carry. The text of the library's exception is left out of the
  reason.\<close>

record VerificationResult =
  vr_valid :: bool
  vr_claims :: "jwt_payload option"
  vr_reason :: string
  vr_mode :: string

record PassportVerifier =
  pv_jwt_secret :: jwt_key
  pv_control_plane_url :: string
  pv_algorithm :: algorithm
  pv_mode :: string
  pv_revocation_set :: "string set"

definition new_PassportVerifier :: "jwt_key \<Rightarrow> string \<Rightarrow> algorithm \<Rightarrow> PassportVerifier" where
  "new_PassportVerifier jwt_secret url a =
     \<lparr>pv_jwt_secret = jwt_secret, pv_control_plane_url = url, pv_algorithm = a,
      pv_mode = ''online'', pv_revocation_set = {}\<rparr>"

text \<open>\<open>verify\<close> catches the two token errors; a key the algorithm cannot use is
  neither and passes through.\<close>

definition verifier_verify ::
  "PassportVerifier \<Rightarrow> token \<Rightarrow> datetime \<Rightarrow> pyerror + VerificationResult" where
  "verifier_verify self tok now =
     (case jwt_decode tok (pv_jwt_secret self) (pv_algorithm self) (timestamp now) of
        Inl ExpiredSignatureError \<Rightarrow>
          Inr \<lparr>vr_valid = False, vr_claims = None, vr_reason = ''passport expired'',
               vr_mode = ''online''\<rparr>
      | Inl InvalidTokenError \<Rightarrow>
          Inr \<lparr>vr_valid = False, vr_claims = None, vr_reason = ''invalid signature'',
               vr_mode = ''online''\<rparr>
      | Inl e \<Rightarrow> Inl e
      | Inr decoded \<Rightarrow>
          if jwt_jti decoded \<in> pv_revocation_set self then
            Inr \<lparr>vr_valid = False, vr_claims = None, vr_reason = ''passport revoked'',
                 vr_mode = pv_mode self\<rparr>
          else
            Inr \<lparr>vr_valid = True, vr_claims = Some decoded, vr_reason = '''',
                 vr_mode = pv_mode self\<rparr>)"

definition update_revocation_list :: "PassportVerifier \<Rightarrow> string list \<Rightarrow> PassportVerifier" where
  "update_revocation_list self revoked_jtis = self\<lparr>pv_revocation_set := set revoked_jtis\<rparr>"

definition set_mode :: "PassportVerifier \<Rightarrow> string \<Rightarrow> PassportVerifier" where
  "set_mode self m = self\<lparr>pv_mode := m\<rparr>"

section \<open>Local policy enforcer (edge-gateway/identity/local\_enforcer.py)\<close>

text \<open>\<open>TIER_RANK.get(tier, 0)\<close> for a string, and for a value of a rule, where a list
  or a dictionary is unhashable.\<close>

definition TIER_RANK :: "string \<Rightarrow> nat" where
  "TIER_RANK t =
     (if t = ''T1'' then 4 else if t = ''T2'' then 3 else if t = ''T3'' then 2
      else if t = ''T4'' then 1 else 0)"

fun TIER_RANK_json :: "json \<Rightarrow> pyerror + nat" where
  "TIER_RANK_json (JStr t) = Inr (TIER_RANK t)"
| "TIER_RANK_json (JList xs) = Inl TypeError"
| "TIER_RANK_json (JObj kvs) = Inl TypeError"
| "TIER_RANK_json _ = Inr 0"

text \<open>The reason is an f-string around one value of the rule; the model keeps that
  value.\<close>

datatype reason = RuleFailed json | AllPassed

record EnforcerVerdict =
  ev_verdict :: json
  ev_reason :: reason
  ev_rules_checked :: nat

record LocalPolicyEnforcer =
  rules :: "pydict list"
  policy_version :: string

definition new_enforcer :: LocalPolicyEnforcer where
  "new_enforcer = \<lparr>rules = [], policy_version = ''0''\<rparr>"

definition load_policy_bundle ::
  "LocalPolicyEnforcer \<Rightarrow> pydict list \<Rightarrow> string \<Rightarrow> LocalPolicyEnforcer" where
  "load_policy_bundle self rs version = self\<lparr>rules := rs, policy_version := version\<rparr>"

definition evaluate_rule ::
  "pydict \<Rightarrow> string \<Rightarrow> rat \<Rightarrow> rat \<Rightarrow> string \<Rightarrow> rat \<Rightarrow> pydict \<Rightarrow> pyerror + bool" where
  "evaluate_rule rule tier trust limit action amount ctx =
     (let rule_type = dict_get rule ''type'' (JStr '''') in
      if rule_type = JStr ''amount_limit'' then
        float_le_json amount (dict_get rule ''max_amount'' (JInt 0))
      else if rule_type = JStr ''trust_minimum'' then
        float_ge_json trust (dict_get rule ''min_trust'' (JFloat 0))
      else if rule_type = JStr ''tier_required'' then
        str_in_json tier (dict_get rule ''allowed_tiers'' (JList []))
      else if rule_type = JStr ''tier_minimum'' then
        (case TIER_RANK_json (dict_get rule ''min_tier'' (JStr ''T4'')) of
           Inl e \<Rightarrow> Inl e
         | Inr r \<Rightarrow> Inr (TIER_RANK tier \<ge> r))
      else if rule_type = JStr ''action_allowed'' then
        str_in_json action (dict_get rule ''allowed_actions'' (JList []))
      else if rule_type = JStr ''authority_limit'' then
        Inr (amount \<le> limit)
      else Inr True)"

text \<open>The loop of \<open>evaluate\<close>: \<open>checked\<close> counts the rules looked at so far.\<close>

fun evaluate_loop ::
  "pydict list \<Rightarrow> nat \<Rightarrow> string \<Rightarrow> rat \<Rightarrow> rat \<Rightarrow> string \<Rightarrow> rat \<Rightarrow> pydict
     \<Rightarrow> pyerror + EnforcerVerdict" where
  "evaluate_loop [] checked tier trust limit action amount ctx =
     Inr \<lparr>ev_verdict = JStr ''allow'', ev_reason = AllPassed, ev_rules_checked = checked\<rparr>"
| "evaluate_loop (rule # rest) checked tier trust limit action amount ctx =
     (case evaluate_rule rule tier trust limit action amount ctx of
        Inl e \<Rightarrow> Inl e
      | Inr passed \<Rightarrow>
          if \<not> passed then
            Inr \<lparr>ev_verdict = dict_get rule ''on_fail'' (JStr ''deny''),
                 ev_reason = RuleFailed (dict_get rule ''name'' (dict_get rule ''type'' JNull)),
                 ev_rules_checked = checked + 1\<rparr>
          else evaluate_loop rest (checked + 1) tier trust limit action amount ctx)"

definition evaluate ::
  "LocalPolicyEnforcer \<Rightarrow> string \<Rightarrow> rat \<Rightarrow> rat \<Rightarrow> string \<Rightarrow> rat \<Rightarrow> pydict option
     \<Rightarrow> pyerror + EnforcerVerdict" where
  "evaluate self agent_tier trust_score authority_limit action_type amount opt_context =
     (let ctx = (case opt_context of None \<Rightarrow> [] | Some c \<Rightarrow> c) in
      evaluate_loop (rules self) 0 agent_tier trust_score authority_limit action_type amount ctx)"

section \<open>Edge gateway: local ledger (edge-gateway/identity/local\_ledger.py)\<close>

text \<open>The fields of a \<open>LocalDecision\<close> carry the prefix \<open>ld_\<close>. The verdict is the
  value the enforcer took from the rule, the reason the enforcer's or the gateway's.\<close>

datatype decision_reason = EnforcerReason reason | EnvironmentNotPermitted string

record LocalDecision =
  ld_agent_id :: string
  ld_action_type :: string
  ld_resource :: string
  ld_amount :: rat
  ld_environment :: string
  ld_verdict :: json
  ld_reason :: decision_reason
  ld_passport_jti :: string
  ld_gateway_id :: string
  ld_id :: string
  ld_timestamp :: datetime
  ld_hash :: string
  ld_synced :: bool

definition LocalDecision_payload :: "LocalDecision \<Rightarrow> pydict" where
  "LocalDecision_payload self = dict_display
     [(''id'', JStr (ld_id self)),
      (''agent_id'', JStr (ld_agent_id self)),
      (''action_type'', JStr (ld_action_type self)),
      (''verdict'', ld_verdict self),
      (''amount'', JFloat (ld_amount self)),
      (''environment'', JStr (ld_environment self)),
      (''timestamp'', JStr (isoformat (ld_timestamp self)))]"

definition LocalDecision_compute_hash :: "LocalDecision \<Rightarrow> string" where
  "LocalDecision_compute_hash self =
     sha256_hexdigest (json_dumps (JObj (LocalDecision_payload self)))"

text \<open>The constructor: \<open>fresh_id\<close> is the \<open>uuid4\<close> drawn and \<open>now\<close> the clock read by
  the field defaults; \<open>__post_init__\<close> sets the hash.\<close>

definition new_LocalDecision ::
  "string \<Rightarrow> string \<Rightarrow> string \<Rightarrow> rat \<Rightarrow> string \<Rightarrow> json \<Rightarrow> decision_reason \<Rightarrow> string \<Rightarrow> string
     \<Rightarrow> string \<Rightarrow> datetime \<Rightarrow> LocalDecision" where
  "new_LocalDecision agent_id action_type resource amount environment verdict rsn
       passport_jti gateway_id fresh_id now =
     (let self = \<lparr>ld_agent_id = agent_id, ld_action_type = action_type,
                   ld_resource = resource, ld_amount = amount,
                   ld_environment = environment, ld_verdict = verdict, ld_reason = rsn,
                   ld_passport_jti = passport_jti, ld_gateway_id = gateway_id,
                   ld_id = fresh_id, ld_timestamp = now, ld_hash = '''',
                   ld_synced = False\<rparr>
      in self\<lparr>ld_hash := LocalDecision_compute_hash self\<rparr>)"

record LocalLedger =
  ll_gateway_id :: string
  ll_entries :: "LocalDecision list"
  ll_last_decision_id :: string

definition new_LocalLedger :: "string \<Rightarrow> LocalLedger" where
  "new_LocalLedger gateway_id =
     \<lparr>ll_gateway_id = gateway_id, ll_entries = [], ll_last_decision_id = ''''\<rparr>"

text \<open>\<open>record_decision\<close> returns the decision id and the ledger it leaves.\<close>

definition record_decision ::
  "LocalLedger \<Rightarrow> string \<Rightarrow> string \<Rightarrow> string \<Rightarrow> rat \<Rightarrow> string \<Rightarrow> json \<Rightarrow> decision_reason
     \<Rightarrow> string \<Rightarrow> string \<Rightarrow> datetime \<Rightarrow> string \<times> LocalLedger" where
  "record_decision self agent_id action_type resource amount environment verdict rsn
       passport_jti fresh_id now =
     (let entry = new_LocalDecision agent_id action_type resource amount environment
                    verdict rsn passport_jti (ll_gateway_id self) fresh_id now
      in (ld_id entry,
          self\<lparr>ll_entries := ll_entries self @ [entry],
               ll_last_decision_id := ld_id entry\<rparr>))"

definition get_unsynced :: "LocalLedger \<Rightarrow> LocalDecision list" where
  "get_unsynced self = filter (\<lambda>e. \<not> ld_synced e) (ll_entries self)"

definition mark_synced :: "LocalLedger \<Rightarrow> string list \<Rightarrow> nat \<times> LocalLedger" where
  "mark_synced self ids =
     (length (filter (\<lambda>e. ld_id e \<in> set ids) (ll_entries self)),
      self\<lparr>ll_entries :=
             map (\<lambda>e. if ld_id e \<in> set ids then e\<lparr>ld_synced := True\<rparr> else e)
               (ll_entries self)\<rparr>)"

section \<open>Edge gateway: sync client and endpoints (sync\_client.py, edge-gateway/main.py)\<close>

text \<open>What an HTTP request to the control plane came to: an exception (no connection,
  a timeout, a body that is not JSON), or a status code with the parsed body.\<close>

datatype 'a http_outcome = RequestFailed | Response nat 'a

record bundle_body =
  bb_rules :: "pydict list option"
  bb_version :: "string option"

record revocation_body =
  rb_revoked_jtis :: "string list option"

datatype sync_status =
    PoliciesSynced nat string
  | RevocationSynced nat
  | Flushed nat
  | NothingToFlush
  | SyncFailed
  | FlushFailed nat

definition sync_policies ::
  "LocalPolicyEnforcer \<Rightarrow> bundle_body http_outcome \<Rightarrow> sync_status \<times> LocalPolicyEnforcer" where
  "sync_policies enforcer outcome =
     (case outcome of
        Response code data \<Rightarrow>
          if code = 200 then
            (let rs = (case bb_rules data of None \<Rightarrow> [] | Some r \<Rightarrow> r);
                 version = (case bb_version data of None \<Rightarrow> ''unknown'' | Some v \<Rightarrow> v)
             in (PoliciesSynced (length rs) version, load_policy_bundle enforcer rs version))
          else (SyncFailed, enforcer)
      | RequestFailed \<Rightarrow> (SyncFailed, enforcer))"

definition sync_revocation_list ::
  "PassportVerifier \<Rightarrow> revocation_body http_outcome \<Rightarrow> sync_status \<times> PassportVerifier" where
  "sync_revocation_list verifier outcome =
     (case outcome of
        Response code data \<Rightarrow>
          if code = 200 then
            (let jtis = (case rb_revoked_jtis data of None \<Rightarrow> [] | Some l \<Rightarrow> l)
             in (RevocationSynced (length jtis), update_revocation_list verifier jtis))
          else (SyncFailed, verifier)
      | RequestFailed \<Rightarrow> (SyncFailed, verifier))"

definition flush_ledger :: "LocalLedger \<Rightarrow> unit http_outcome \<Rightarrow> sync_status \<times> LocalLedger" where
  "flush_ledger ledger outcome =
     (let unsynced = get_unsynced ledger in
      if unsynced = [] then (NothingToFlush, ledger)
      else
        (case outcome of
           Response code body \<Rightarrow>
             if code = 200 then
               (let (synced, ledger') = mark_synced ledger (map ld_id unsynced)
                in (Flushed synced, ledger'))
             else (FlushFailed (length unsynced), ledger)
         | RequestFailed \<Rightarrow> (FlushFailed (length unsynced), ledger)))"

text \<open>The process state of the gateway: its configuration and the three objects made
  at startup.\<close>

record gateway =
  gw_id :: string
  gw_environment :: string
  gw_control_plane_url :: string
  gw_verifier :: PassportVerifier
  gw_enforcer :: LocalPolicyEnforcer
  gw_ledger :: LocalLedger

text \<open>\<open>lifespan\<close> up to \<open>yield\<close>: the objects are made and synced once.\<close>

definition startup ::
  "string \<Rightarrow> string \<Rightarrow> string \<Rightarrow> jwt_key \<Rightarrow> bundle_body http_outcome
     \<Rightarrow> revocation_body http_outcome \<Rightarrow> gateway" where
  "startup gateway_id environment url jwt_secret policies revocations =
     \<lparr>gw_id = gateway_id, gw_environment = environment, gw_control_plane_url = url,
      gw_verifier = snd (sync_revocation_list (new_PassportVerifier jwt_secret url HS256)
                           revocations),
      gw_enforcer = snd (sync_policies new_enforcer policies),
      gw_ledger = new_LocalLedger gateway_id\<rparr>"

text \<open>\<open>POST /sync\<close>.\<close>

definition trigger_sync ::
  "gateway \<Rightarrow> bundle_body http_outcome \<Rightarrow> revocation_body http_outcome
     \<Rightarrow> (sync_status \<times> sync_status) \<times> gateway" where
  "trigger_sync gw policies revocations =
     (let (r1, enforcer') = sync_policies (gw_enforcer gw) policies;
          (r2, verifier') = sync_revocation_list (gw_verifier gw) revocations
      in ((r1, r2), gw\<lparr>gw_enforcer := enforcer', gw_verifier := verifier'\<rparr>))"

text \<open>\<open>GET /status\<close>.\<close>

record status_response =
  st_gateway_id :: string
  st_environment :: string
  st_mode :: string
  st_control_plane_url :: string
  st_local_ledger_size :: nat
  st_policy_count :: nat
  st_timestamp :: string

definition status :: "gateway \<Rightarrow> datetime \<Rightarrow> status_response" where
  "status gw now =
     \<lparr>st_gateway_id = gw_id gw, st_environment = gw_environment gw,
      st_mode = pv_mode (gw_verifier gw),
      st_control_plane_url = gw_control_plane_url gw,
      st_local_ledger_size = length (ll_entries (gw_ledger gw)),
      st_policy_count = length (rules (gw_enforcer gw)),
      st_timestamp = isoformat now\<rparr>"

text \<open>\<open>POST /authorize\<close>.\<close>

record AuthorizeRequest =
  rq_passport_token :: token
  rq_action_type :: string
  rq_resource :: string
  rq_amount :: rat
  rq_environment :: string
  rq_context :: pydict

record AuthorizeResponse =
  rs_authorized :: bool
  rs_verdict :: string
  rs_reason :: decision_reason
  rs_agent_id :: string
  rs_agent_tier :: string
  rs_gateway_id :: string
  rs_latency_ms :: rat
  rs_mode :: string
  rs_decision_id :: string

datatype http_error = Http401 string | Http500 pyerror

text \<open>
  Besides the request, a call reads the clock for the token's expiry (\<open>t_verify\<close>),
  draws a \<open>uuid4\<close> and reads the clock again for the ledger entry (\<open>fresh_id\<close>,
  \<open>t_record\<close>), and measures its own latency. A result without claims has the empty
  dictionary, whose lookups give the defaults. A verdict that is not a string fails the
  validation of the response, after the ledger entry was written.
\<close>

definition authorize ::
  "gateway \<Rightarrow> AuthorizeRequest \<Rightarrow> datetime \<Rightarrow> string \<Rightarrow> datetime \<Rightarrow> rat
     \<Rightarrow> (http_error + AuthorizeResponse) \<times> gateway" where
  "authorize gw req t_verify fresh_id t_record latency =
     (case verifier_verify (gw_verifier gw) (rq_passport_token req) t_verify of
        Inl e \<Rightarrow> (Inl (Http500 e), gw)
      | Inr result \<Rightarrow>
          if \<not> vr_valid result then
            (Inl (Http401 (''Invalid passport: '' @ vr_reason result)), gw)
          else
            (let claims = vr_claims result;
                 agent_id = (case claims of None \<Rightarrow> ''unknown'' | Some c \<Rightarrow> jwt_sub c);
                 allowed_envs =
                   (case claims of None \<Rightarrow> [] | Some c \<Rightarrow> ag_allowed_environments (jwt_ag c));
                 agent_tier = (case claims of None \<Rightarrow> ''T4'' | Some c \<Rightarrow> ag_tier (jwt_ag c));
                 trust_score =
                   (case claims of None \<Rightarrow> 0 | Some c \<Rightarrow> ag_trust_score (jwt_ag c));
                 authority_limit =
                   (case claims of None \<Rightarrow> 0 | Some c \<Rightarrow> ag_authority_limit (jwt_ag c));
                 passport_jti = (case claims of None \<Rightarrow> '''' | Some c \<Rightarrow> jwt_jti c)
             in
             if rq_environment req \<notin> set allowed_envs then
               (let (decision_id, ledger') =
                      record_decision (gw_ledger gw) agent_id (rq_action_type req)
                        (rq_resource req) (rq_amount req) (rq_environment req)
                        (JStr ''deny'') (EnvironmentNotPermitted (rq_environment req))
                        '''' fresh_id t_record
                in (Inr \<lparr>rs_authorized = False, rs_verdict = ''deny'',
                         rs_reason = EnvironmentNotPermitted (rq_environment req),
                         rs_agent_id = agent_id, rs_agent_tier = agent_tier,
                         rs_gateway_id = gw_id gw, rs_latency_ms = latency,
                         rs_mode = pv_mode (gw_verifier gw),
                         rs_decision_id = ll_last_decision_id ledger'\<rparr>,
                    gw\<lparr>gw_ledger := ledger'\<rparr>))
             else
               (case evaluate (gw_enforcer gw) agent_tier trust_score authority_limit
                       (rq_action_type req) (rq_amount req) (Some (rq_context req)) of
                  Inl e \<Rightarrow> (Inl (Http500 e), gw)
                | Inr v \<Rightarrow>
                    (let (decision_id, ledger') =
                           record_decision (gw_ledger gw) agent_id (rq_action_type req)
                             (rq_resource req) (rq_amount req) (rq_environment req)
                             (ev_verdict v) (EnforcerReason (ev_reason v))
                             passport_jti fresh_id t_record;
                         gw' = gw\<lparr>gw_ledger := ledger'\<rparr>
                     in (case ev_verdict v of
                           JStr s \<Rightarrow>
                             (Inr \<lparr>rs_authorized = (s = ''allow''), rs_verdict = s,
                                   rs_reason = EnforcerReason (ev_reason v),
                                   rs_agent_id = agent_id, rs_agent_tier = agent_tier,
                                   rs_gateway_id = gw_id gw, rs_latency_ms = latency,
                                   rs_mode = pv_mode (gw_verifier gw),
                                   rs_decision_id = decision_id\<rparr>, gw')
                         | other \<Rightarrow> (Inl (Http500 ValidationError), gw'))))))"

text \<open>A run of sync attempts (at startup and on \<open>POST /sync\<close>; the gateway starts no
  other), each with what its two requests came to.\<close>

definition sync_rounds ::
  "gateway \<Rightarrow> (bundle_body http_outcome \<times> revocation_body http_outcome) list \<Rightarrow> gateway" where
  "sync_rounds gw outcomes = foldl (\<lambda>g (p, r). snd (trigger_sync g p r)) gw outcomes"

section \<open>Policy distribution (governance-api/policy/distribution.py)\<close>

text \<open>The fields of a \<open>PolicyRule\<close> carry the prefix \<open>pr_\<close>, those of a
  \<open>PolicyBundle\<close> \<open>pb_\<close>.\<close>

record PolicyRule =
  pr_id :: string
  pr_name :: string
  pr_type :: string
  pr_parameters :: pydict
  pr_on_fail :: string
  pr_environment_scope :: "json list"
  pr_active :: bool
  pr_created_at :: datetime

text \<open>\<open>to_dict\<close>: the parameters are spliced in after \<open>type\<close>, so they can replace
  \<open>id\<close>, \<open>name\<close> and \<open>type\<close> and are replaced by the three keys that follow.\<close>

definition PolicyRule_to_dict :: "PolicyRule \<Rightarrow> pydict" where
  "PolicyRule_to_dict self = dict_display
     ([(''id'', JStr (pr_id self)),
       (''name'', JStr (pr_name self)),
       (''type'', JStr (pr_type self))]
      @ pr_parameters self @
      [(''on_fail'', JStr (pr_on_fail self)),
       (''environment_scope'', JList (pr_environment_scope self)),
       (''active'', JBool (pr_active self))])"

record PolicyBundle =
  pb_version :: string
  pb_rules :: "PolicyRule list"
  pb_hash :: string
  pb_parent_hash :: string
  pb_valid_from :: datetime
  pb_valid_until :: "datetime option"
  pb_metadata :: pydict
  pb_id :: string

definition PolicyBundle_payload :: "PolicyBundle \<Rightarrow> pydict" where
  "PolicyBundle_payload self = dict_display
     [(''version'', JStr (pb_version self)),
      (''rules'', JList (map (\<lambda>r. JObj (PolicyRule_to_dict r)) (pb_rules self))),
      (''parent_hash'', JStr (pb_parent_hash self))]"

definition PolicyBundle_compute_hash :: "PolicyBundle \<Rightarrow> string" where
  "PolicyBundle_compute_hash self =
     sha256_hexdigest (json_dumps (JObj (PolicyBundle_payload self)))"

definition verify_integrity :: "PolicyBundle \<Rightarrow> bool" where
  "verify_integrity self = (pb_hash self = PolicyBundle_compute_hash self)"

text \<open>The constructor as \<open>create_bundle\<close> calls it, without a hash:
  \<open>__post_init__\<close> computes it.\<close>

definition new_PolicyBundle ::
  "string \<Rightarrow> PolicyRule list \<Rightarrow> string \<Rightarrow> pydict \<Rightarrow> datetime \<Rightarrow> string \<Rightarrow> PolicyBundle" where
  "new_PolicyBundle version rs parent_hash metadata now fresh_id =
     (let self = \<lparr>pb_version = version, pb_rules = rs, pb_hash = '''',
                   pb_parent_hash = parent_hash, pb_valid_from = now,
                   pb_valid_until = None, pb_metadata = metadata, pb_id = fresh_id\<rparr>
      in if pb_hash self = [] then self\<lparr>pb_hash := PolicyBundle_compute_hash self\<rparr>
         else self)"

definition to_edge_format :: "PolicyBundle \<Rightarrow> pydict" where
  "to_edge_format self = dict_display
     [(''version'', JStr (pb_version self)),
      (''hash'', JStr (pb_hash self)),
      (''rules'', JList (map (\<lambda>r. JObj (PolicyRule_to_dict r))
                         (filter pr_active (pb_rules self))))]"

record PolicyDistributionService =
  pd_bundles :: "PolicyBundle list"
  pd_current :: "PolicyBundle option"
  pd_gateway_versions :: "(string \<times> string) list"
  pd_rollback_stack :: "string list"

definition new_PolicyDistributionService :: PolicyDistributionService where
  "new_PolicyDistributionService =
     \<lparr>pd_bundles = [], pd_current = None, pd_gateway_versions = [],
      pd_rollback_stack = []\<rparr>"

text \<open>\<open>create_bundle\<close>: \<open>now\<close> is the clock (for the default version and
  \<open>valid_from\<close>), \<open>fresh_id\<close> the \<open>uuid4\<close> of the bundle. \<open>{n:03d}\<close> is
  \<open>zfill 3\<close>.\<close>

definition create_bundle ::
  "PolicyDistributionService \<Rightarrow> PolicyRule list \<Rightarrow> string \<Rightarrow> pydict option \<Rightarrow> datetime
     \<Rightarrow> string \<Rightarrow> PolicyBundle \<times> PolicyDistributionService" where
  "create_bundle self rs version metadata now fresh_id =
     (let version' =
            (if version = [] then
               ''v'' @ strftime_Ymd now @ ''-'' @ zfill 3 (str_nat (length (pd_bundles self) + 1))
             else version);
          parent_hash = (case pd_current self of Some c \<Rightarrow> pb_hash c | None \<Rightarrow> '''');
          bundle = new_PolicyBundle version' rs parent_hash
                     (case metadata of None \<Rightarrow> [] | Some m \<Rightarrow> m)
                     now fresh_id
      in (bundle,
          self\<lparr>pd_bundles := pd_bundles self @ [bundle],
               pd_rollback_stack :=
                 (case pd_current self of
                    Some c \<Rightarrow> pd_rollback_stack self @ [pb_version c]
                  | None \<Rightarrow> pd_rollback_stack self),
               pd_current := Some bundle\<rparr>))"

definition get_current_bundle :: "PolicyDistributionService \<Rightarrow> PolicyBundle option" where
  "get_current_bundle self = pd_current self"

definition get_bundle_by_version ::
  "PolicyDistributionService \<Rightarrow> string \<Rightarrow> PolicyBundle option" where
  "get_bundle_by_version self version = find (\<lambda>b. pb_version b = version) (pd_bundles self)"

text \<open>\<open>rollback\<close> calls itself with the version popped from the stack.\<close>

function rollback ::
  "PolicyDistributionService \<Rightarrow> string \<Rightarrow> PolicyBundle option \<times> PolicyDistributionService" where
  "rollback self target_version =
     (if target_version \<noteq> [] then
        (case get_bundle_by_version self target_version of
           Some target \<Rightarrow> (Some target, self\<lparr>pd_current := Some target\<rparr>)
         | None \<Rightarrow> (None, self))
      else if pd_rollback_stack self \<noteq> [] then
        rollback (self\<lparr>pd_rollback_stack := butlast (pd_rollback_stack self)\<rparr>)
          (last (pd_rollback_stack self))
      else (None, self))"
  by pat_completeness auto
termination
  by (relation "measure (\<lambda>(self, target_version). length (pd_rollback_stack self))") auto

declare rollback.simps [simp del]

text \<open>A run of the two operations on the store, with the inputs of each.\<close>

datatype store_op =
    CreateBundle "PolicyRule list" string "pydict option" datetime string
  | Rollback string

fun apply_store_op :: "PolicyDistributionService \<Rightarrow> store_op \<Rightarrow> PolicyDistributionService" where
  "apply_store_op self (CreateBundle rs version metadata now fresh_id) =
     snd (create_bundle self rs version metadata now fresh_id)"
| "apply_store_op self (Rollback target_version) = snd (rollback self target_version)"

definition run_store :: "store_op list \<Rightarrow> PolicyDistributionService" where
  "run_store ops = foldl apply_store_op new_PolicyDistributionService ops"

fun is_create :: "store_op \<Rightarrow> bool" where
  "is_create (CreateBundle rs version metadata now fresh_id) = True"
| "is_create (Rollback target_version) = False"

text \<open>Two properties of a list of bundles in publication order: every parent hash is
  empty or the hash of an earlier bundle (\<open>seen\<close> holds the earlier hashes), and every
  parent hash is the hash of the bundle just before (\<open>prev\<close>, empty at the start).\<close>

fun parents_known :: "string list \<Rightarrow> PolicyBundle list \<Rightarrow> bool" where
  "parents_known seen [] = True"
| "parents_known seen (b # bs) =
     ((pb_parent_hash b = [] \<or> pb_parent_hash b \<in> set seen)
      \<and> parents_known (seen @ [pb_hash b]) bs)"

fun linked :: "string \<Rightarrow> PolicyBundle list \<Rightarrow> bool" where
  "linked prev [] = True"
| "linked prev (b # bs) = (pb_parent_hash b = prev \<and> linked (pb_hash b) bs)"

text \<open>The payload as the specification words it, with the rules sorted by their id.\<close>

definition spec_PolicyBundle_payload :: "PolicyBundle \<Rightarrow> pydict" where
  "spec_PolicyBundle_payload self = dict_display
     [(''version'', JStr (pb_version self)),
      (''rules'', JList (map (\<lambda>r. JObj (PolicyRule_to_dict r))
                         (sort_key pr_id (pb_rules self)))),
      (''parent_hash'', JStr (pb_parent_hash self))]"

section \<open>Prophecy engine (governance-api/policy/prophecy.py)\<close>

text \<open>The fields of a \<open>ProphecyPath\<close> carry the prefix \<open>pp_\<close>. The cascade effects are
  kept by kind, without their formatted numbers, and the long dash of the reasoning
  texts is written as a hyphen.\<close>

datatype cascade =
    UsesShareOfLimit
  | MayTriggerReview
  | TaskMayStall
  | SeniorAgentBlocked
  | DelayedForReview
  | SeniorReviewerRequired

record ProphecyPath =
  pp_path_type :: string
  pp_predicted_trust_delta :: rat
  pp_risk_score :: rat
  pp_financial_exposure :: rat
  pp_compliance_risk :: string
  pp_cascade_effects :: "cascade list"
  pp_recommendation_weight :: rat
  pp_reasoning :: string

record ProphecyResult =
  pz_agent_id :: string
  pz_action_type :: string
  pz_amount :: rat
  pz_paths :: "ProphecyPath list"
  pz_recommended_path :: string
  pz_confidence :: rat
  pz_trigger_reason :: string
  pz_computed_at :: datetime

definition simulate_approve :: "rat \<Rightarrow> rat \<Rightarrow> rat \<Rightarrow> rat \<Rightarrow> string \<Rightarrow> ProphecyPath" where
  "simulate_approve trust auth_ratio success_rate amount tier =
     (let (predicted_delta, risk0, reasoning0) =
            (if success_rate \<ge> 85 / 100 then
               (3 / 100, 1 / 10 + auth_ratio * (2 / 10),
                ''High historical success rate - approve is low-risk'')
             else if success_rate \<ge> 65 / 100 then
               (1 / 100, 3 / 10 + auth_ratio * (3 / 10),
                ''Moderate success rate - approve with monitoring'')
             else
               (- (5 / 100), 5 / 10 + auth_ratio * (4 / 10),
                ''Low success rate - approval carries significant risk''));
          risk = (if auth_ratio > 90 / 100 then min (risk0 + 2 / 10) 1 else risk0);
          reasoning = (if auth_ratio > 90 / 100
                       then reasoning0 @ '' (near authority limit - elevated risk)''
                       else reasoning0);
          cascades = (if auth_ratio > 80 / 100 then [UsesShareOfLimit] else [])
                     @ (if risk > 6 / 10 then [MayTriggerReview] else []);
          financial_exposure = amount * risk;
          compliance_risk =
            (if risk > 7 / 10 then ''high'' else if risk > 4 / 10 then ''medium'' else ''low'');
          weight = success_rate * (1 - risk) * (8 / 10)
      in \<lparr>pp_path_type = ''approve'',
          pp_predicted_trust_delta = predicted_delta,
          pp_risk_score = py_round risk 3,
          pp_financial_exposure = py_round financial_exposure 2,
          pp_compliance_risk = compliance_risk,
          pp_cascade_effects = cascades,
          pp_recommendation_weight = py_round weight 3,
          pp_reasoning = reasoning\<rparr>)"

definition simulate_deny :: "rat \<Rightarrow> rat \<Rightarrow> rat \<Rightarrow> string \<Rightarrow> ProphecyPath" where
  "simulate_deny trust auth_ratio amount tier =
     (let senior = (tier = ''T1'' \<or> tier = ''T2'');
          predicted_delta = (if senior then - (1 / 100) else 0);
          risk = 5 / 100;
          cascades = [TaskMayStall] @ (if senior then [SeniorAgentBlocked] else []);
          weight = (3 / 10) * (1 - auth_ratio)
      in \<lparr>pp_path_type = ''deny'',
          pp_predicted_trust_delta = predicted_delta,
          pp_risk_score = py_round risk 3,
          pp_financial_exposure = 0,
          pp_compliance_risk = ''none'',
          pp_cascade_effects = cascades,
          pp_recommendation_weight = py_round weight 3,
          pp_reasoning = ''Deny is safest but may cause operational delays''\<rparr>)"

definition simulate_escalate :: "rat \<Rightarrow> rat \<Rightarrow> rat \<Rightarrow> string \<Rightarrow> ProphecyPath" where
  "simulate_escalate trust auth_ratio amount tier =
     (let risk = (if amount > 50000 then 1 / 10 else 15 / 100);
          cascades = [DelayedForReview]
                     @ (if amount > 50000 then [SeniorReviewerRequired] else []);
          weight0 = (5 / 10) * auth_ratio + (3 / 10) * (1 - trust);
          weight = (if trust < 5 / 10 then weight0 + 2 / 10 else weight0);
          reasoning = ''Escalation provides human oversight - moderate delay cost''
                      @ (if trust < 5 / 10 then '' (recommended for low-trust agents)''
                         else '''')
      in \<lparr>pp_path_type = ''escalate'',
          pp_predicted_trust_delta = 2 / 100,
          pp_risk_score = py_round risk 3,
          pp_financial_exposure = py_round (amount * (5 / 100)) 2,
          pp_compliance_risk = ''low'',
          pp_cascade_effects = cascades,
          pp_recommendation_weight = py_round (min weight 1) 3,
          pp_reasoning = reasoning\<rparr>)"

text \<open>\<open>max(paths, key=...)\<close> keeps the first of the largest.\<close>

fun max_by_weight :: "ProphecyPath \<Rightarrow> ProphecyPath list \<Rightarrow> ProphecyPath" where
  "max_by_weight best [] = best"
| "max_by_weight best (p # ps) =
     (if pp_recommendation_weight p > pp_recommendation_weight best
      then max_by_weight p ps else max_by_weight best ps)"

definition simulate ::
  "string \<Rightarrow> string \<Rightarrow> rat \<Rightarrow> rat \<Rightarrow> string \<Rightarrow> rat \<Rightarrow> rat \<Rightarrow> string \<Rightarrow> datetime
     \<Rightarrow> ProphecyResult" where
  "simulate agent_id action_type amount trust_score tier authority_limit
       historical_success_rate trigger_reason now =
     (let authority_ratio = (if authority_limit > 0 then amount / authority_limit else 1);
          approve = simulate_approve trust_score authority_ratio historical_success_rate
                      amount tier;
          deny = simulate_deny trust_score authority_ratio amount tier;
          escalate = simulate_escalate trust_score authority_ratio amount tier;
          paths = [approve, deny, escalate];
          best = max_by_weight approve [deny, escalate];
          weights = rev (sort (map pp_recommendation_weight paths));
          spread = weights ! 0 - weights ! 1;
          confidence = min (5 / 10 + spread) 1
      in \<lparr>pz_agent_id = agent_id, pz_action_type = action_type, pz_amount = amount,
          pz_paths = paths, pz_recommended_path = pp_path_type best,
          pz_confidence = py_round confidence 3, pz_trigger_reason = trigger_reason,
          pz_computed_at = now\<rparr>)"

section \<open>Master decision ledger (crewai-engine/ancestor/decision\_ledger.py)\<close>

text \<open>The fields of a \<open>DecisionRecord\<close> carry the prefix \<open>dr_\<close>.\<close>

record DecisionRecord =
  dr_agent_id :: string
  dr_task_id :: string
  dr_decision_type :: string
  dr_input_context :: pydict
  dr_reasoning_trace :: string
  dr_output_action :: pydict
  dr_confidence_score :: rat
  dr_dispute_id :: string
  dr_risk_score :: rat
  dr_amount_involved :: rat
  dr_currency :: string
  dr_tools_used :: "json list"
  dr_delegation_chain :: "json list"
  dr_policy_rules_applied :: "json list"
  dr_policy_violations :: "json list"
  dr_sentinel_assessment :: "pydict option"
  dr_prophecy_paths :: "pydict option"
  dr_human_override :: "pydict option"
  dr_crewai_task_output :: string
  dr_id :: string
  dr_timestamp :: datetime
  dr_hash :: string
  dr_prev_hash :: string

definition DecisionRecord_payload :: "DecisionRecord \<Rightarrow> pydict" where
  "DecisionRecord_payload self = dict_display
     [(''id'', JStr (dr_id self)),
      (''agent_id'', JStr (dr_agent_id self)),
      (''task_id'', JStr (dr_task_id self)),
      (''decision_type'', JStr (dr_decision_type self)),
      (''output_action'', JObj (dr_output_action self)),
      (''confidence_score'', JFloat (dr_confidence_score self)),
      (''amount_involved'', JFloat (dr_amount_involved self)),
      (''timestamp'', JStr (isoformat (dr_timestamp self))),
      (''prev_hash'', JStr (dr_prev_hash self))]"

definition DecisionRecord_compute_hash :: "DecisionRecord \<Rightarrow> string" where
  "DecisionRecord_compute_hash self =
     sha256_hexdigest (json_dumps (JObj (DecisionRecord_payload self)))"

definition DecisionRecord_verify :: "DecisionRecord \<Rightarrow> bool" where
  "DecisionRecord_verify self = (dr_hash self = DecisionRecord_compute_hash self)"

text \<open>
  The database is the table \<open>decisions\<close>, its rows in insertion order, or a connection
  on which every statement raises. \<open>ORDER BY timestamp\<close> is a stable sort of the rows.
\<close>

datatype database = Table "DecisionRecord list" | Broken

record DecisionLedger =
  dl_db :: "database option"
  dl_last_hash :: string

definition new_DecisionLedger :: "database option \<Rightarrow> DecisionLedger" where
  "new_DecisionLedger db = \<lparr>dl_db = db, dl_last_hash = ''''\<rparr>"

text \<open>\<open>SELECT hash FROM decisions ORDER BY timestamp DESC LIMIT 1\<close>; an exception
  gives the empty string.\<close>

definition get_last_hash :: "DecisionLedger \<Rightarrow> string" where
  "get_last_hash self =
     (case dl_db self of
        None \<Rightarrow> ''''
      | Some Broken \<Rightarrow> ''''
      | Some (Table rows) \<Rightarrow>
          (case rev (sort_key (\<lambda>r. datetime_key (dr_timestamp r)) rows) of
             [] \<Rightarrow> ''''
           | r # rs \<Rightarrow> dr_hash r))"

definition persist :: "database \<Rightarrow> DecisionRecord \<Rightarrow> pyerror + database" where
  "persist db decision =
     (case db of Table rows \<Rightarrow> Inr (Table (rows @ [decision])) | Broken \<Rightarrow> Inl DatabaseError)"

text \<open>\<open>record\<close> returns the new hash, or the exception of \<open>_persist\<close>, and the ledger
  it leaves: the tip is moved before the row is written.\<close>

definition record_block ::
  "DecisionLedger \<Rightarrow> DecisionRecord \<Rightarrow> (pyerror + string) \<times> DecisionLedger" where
  "record_block self decision =
     (let prev_hash = (if dl_last_hash self \<noteq> [] then dl_last_hash self
                       else get_last_hash self);
          decision1 = decision\<lparr>dr_prev_hash := prev_hash\<rparr>;
          decision2 = decision1\<lparr>dr_hash := DecisionRecord_compute_hash decision1\<rparr>;
          self1 = self\<lparr>dl_last_hash := dr_hash decision2\<rparr>
      in (case dl_db self of
            None \<Rightarrow> (Inr (dr_hash decision2), self1)
          | Some db \<Rightarrow>
              (case persist db decision2 of
                 Inl e \<Rightarrow> (Inl e, self1)
               | Inr db' \<Rightarrow> (Inr (dr_hash decision2), self1\<lparr>dl_db := Some db'\<rparr>))))"

text \<open>The dictionary \<open>verify_chain\<close> returns; a key it does not set is \<open>None\<close>.\<close>

record chain_report =
  cr_valid :: bool
  cr_checked :: nat
  cr_broken_at :: "string option"
  cr_integrity_pct :: "rat option"
  cr_note :: "string option"
  cr_error :: "string option"

text \<open>The loop over the rows: the id of the first row whose \<open>prev_hash\<close> is not the
  hash of the row before it, where the loop breaks.\<close>

fun first_break :: "string \<Rightarrow> DecisionRecord list \<Rightarrow> string option" where
  "first_break prev [] = None"
| "first_break prev (row # rest) =
     (if dr_prev_hash row \<noteq> prev then Some (dr_id row) else first_break (dr_hash row) rest)"

definition select_rows :: "DecisionRecord list \<Rightarrow> string option \<Rightarrow> nat \<Rightarrow> DecisionRecord list" where
  "select_rows table agent_id limit =
     take limit
       (sort_key (\<lambda>r. datetime_key (dr_timestamp r))
          (case agent_id of
             None \<Rightarrow> table
           | Some a \<Rightarrow> if a = [] then table else filter (\<lambda>r. dr_agent_id r = a) table))"

definition verify_chain :: "DecisionLedger \<Rightarrow> string option \<Rightarrow> nat \<Rightarrow> chain_report" where
  "verify_chain self agent_id limit =
     (case dl_db self of
        None \<Rightarrow>
          \<lparr>cr_valid = True, cr_checked = 0, cr_broken_at = None, cr_integrity_pct = None,
           cr_note = Some ''No DB - in-memory mode'', cr_error = None\<rparr>
      | Some Broken \<Rightarrow>
          \<lparr>cr_valid = False, cr_checked = 0, cr_broken_at = None, cr_integrity_pct = None,
           cr_note = None, cr_error = Some ''DatabaseError''\<rparr>
      | Some (Table table) \<Rightarrow>
          (let rows = select_rows table agent_id limit in
           if rows = [] then
             \<lparr>cr_valid = True, cr_checked = 0, cr_broken_at = None, cr_integrity_pct = None,
              cr_note = Some ''empty ledger'', cr_error = None\<rparr>
           else
             (let broken_at = first_break '''' rows;
                  pct = (of_nat (length rows) - (case broken_at of Some b \<Rightarrow> if b \<noteq> [] then 1 else 0
                           | None \<Rightarrow> 0))
                        / of_nat (length rows) * 100
              in \<lparr>cr_valid = (broken_at = None), cr_checked = length rows,
                  cr_broken_at = broken_at, cr_integrity_pct = Some (py_round pct 2),
                  cr_note = None, cr_error = None\<rparr>)))"

section \<open>Data of the worked scenarios\<close>

text \<open>Clock readings, claims and tokens used where a property is evaluated at a concrete
  input.\<close>

definition noon_1_march :: datetime where
  "noon_1_march = \<lparr>year = 2026, month = 3, day = 1, hour = 12, minute = 0, second = 0,
                   microsecond = 0, tz_utc = True\<rparr>"

definition noon_2_march :: datetime where
  "noon_2_march = \<lparr>year = 2026, month = 3, day = 2, hour = 12, minute = 0, second = 0,
                   microsecond = 0, tz_utc = True\<rparr>"

definition noon_3_march :: datetime where
  "noon_3_march = \<lparr>year = 2026, month = 3, day = 3, hour = 12, minute = 0, second = 0,
                   microsecond = 0, tz_utc = True\<rparr>"

definition claims_t2_edge :: ag_claims where
  "claims_t2_edge =
     \<lparr>ag_name = ''Settler'', ag_role = ''settlement'', ag_tier = ''T2'',
      ag_trust_score = 8 / 10, ag_authority_limit = 50000,
      ag_allowed_environments = [''edge''], ag_dna_fingerprint = ''f00d''\<rparr>"

text \<open>A passport with jti \<open>J-1\<close> that expires at noon on 2 March 2026
  (1772452800), and one with jti \<open>J-2\<close> that expires a day later.\<close>

definition payload_J1 :: jwt_payload where
  "payload_J1 =
     \<lparr>jwt_sub = ''agent-7'', jwt_jti = ''J-1'', jwt_iss = ''agentgovern-control-plane'',
      jwt_iat = 1772366400, jwt_exp = 1772452800, jwt_ag = claims_t2_edge\<rparr>"

definition token_J1 :: token where
  "token_J1 = Jwt HS256 (Secret ''dev-shared-secret'') payload_J1"

definition passport_J2 :: AgentPassport where
  "passport_J2 =
     \<lparr>ap_agent_id = ''agent-7'', ap_agent_name = ''Settler'',
      ap_agent_role = ''settlement'', ap_tier = ''T1'', ap_trust_score = 92 / 100,
      ap_allowed_environments = [''edge'', ''cloud''], ap_dna_fingerprint = ''f00d'',
      ap_authority_limit = 100000, ap_issuer = ''agentgovern-control-plane'',
      ap_jti = ''J-2'', ap_issued_at = noon_1_march, ap_expires_at = noon_3_march,
      ap_revoked = False\<rparr>"

definition dev_service :: PassportService where
  "dev_service =
     new_PassportService (Secret ''dev-shared-secret'') (Secret ''dev-shared-secret'')
       HS256 24"

definition dev_verifier :: PassportVerifier where
  "dev_verifier =
     new_PassportVerifier (Secret ''dev-shared-secret'') ''http://governance-api:8000''
       HS256"

lemma scenario_clock:
  "timestamp noon_1_march = 1772366400" "timestamp noon_2_march = 1772452800"
  "timestamp noon_3_march = 1772539200"
  by (simp_all add: timestamp_def days_from_civil_def noon_1_march_def noon_2_march_def
        noon_3_march_def)

text \<open>The two rules of the scenarios S1 and S2, with ids in descending order.\<close>

definition rule_POL1 :: PolicyRule where
  "rule_POL1 =
     \<lparr>pr_id = ''r-2'', pr_name = ''POL-1'', pr_type = ''amount_limit'',
      pr_parameters = [(''max_amount'', JInt 100000)], pr_on_fail = ''deny'',
      pr_environment_scope = [JStr ''cloud'', JStr ''edge'', JStr ''client''],
      pr_active = True, pr_created_at = noon_1_march\<rparr>"

definition rule_POL2 :: PolicyRule where
  "rule_POL2 =
     \<lparr>pr_id = ''r-1'', pr_name = ''POL-2'', pr_type = ''authority_limit'',
      pr_parameters = [], pr_on_fail = ''escalate'',
      pr_environment_scope = [JStr ''cloud'', JStr ''edge'', JStr ''client''],
      pr_active = True, pr_created_at = noon_1_march\<rparr>"

text \<open>The first bundle of a store, made of the two rules, before its hash is set.\<close>

definition bundle_v1_unhashed :: PolicyBundle where
  "bundle_v1_unhashed =
     \<lparr>pb_version = ''v1'', pb_rules = [rule_POL1, rule_POL2], pb_hash = '''',
      pb_parent_hash = '''', pb_valid_from = noon_1_march, pb_valid_until = None,
      pb_metadata = [], pb_id = ''b-1''\<rparr>"

section \<open>Properties of the local enforcer\<close>

lemma evaluate_loop_all_pass:
  "list_all (\<lambda>r. evaluate_rule r tier trust limit action amount ctx = Inr True) rs \<Longrightarrow>
   evaluate_loop rs n tier trust limit action amount ctx =
     Inr \<lparr>ev_verdict = JStr ''allow'', ev_reason = AllPassed, ev_rules_checked = n + length rs\<rparr>"
  by (induction rs arbitrary: n) simp_all

lemma evaluate_loop_first_fail:
  "list_all (\<lambda>r. evaluate_rule r tier trust limit action amount ctx = Inr True) pre \<Longrightarrow>
   evaluate_rule r tier trust limit action amount ctx = Inr False \<Longrightarrow>
   evaluate_loop (pre @ r # post) n tier trust limit action amount ctx =
     Inr \<lparr>ev_verdict = dict_get r ''on_fail'' (JStr ''deny''),
          ev_reason = RuleFailed (dict_get r ''name'' (dict_get r ''type'' JNull)),
          ev_rules_checked = n + length pre + 1\<rparr>"
  by (induction pre arbitrary: n) simp_all

text \<open>
  Claim C5. The enforcer looks at the rules in the order of the bundle. When every rule
  before some rule passes and that rule fails, the verdict is that rule's \<open>on_fail\<close>
  (\<open>deny\<close> when the rule has none), so \<open>on_fail\<close> chooses between deny and escalate, and
  the later rules are not looked at. When every rule passes, and so for the empty bundle,
  the verdict is \<open>allow\<close>.
\<close>

theorem evaluate_first_failing_rule_decides:
  "(list_all (\<lambda>r. evaluate_rule r tier trust limit action amount
        (case opt_context of None \<Rightarrow> [] | Some c \<Rightarrow> c) = Inr True) pre \<and>
    evaluate_rule r tier trust limit action amount
        (case opt_context of None \<Rightarrow> [] | Some c \<Rightarrow> c) = Inr False
    \<longrightarrow> evaluate \<lparr>rules = pre @ r # post, policy_version = v\<rparr>
          tier trust limit action amount opt_context =
        Inr \<lparr>ev_verdict = dict_get r ''on_fail'' (JStr ''deny''),
             ev_reason = RuleFailed (dict_get r ''name'' (dict_get r ''type'' JNull)),
             ev_rules_checked = length pre + 1\<rparr>) \<and>
   (list_all (\<lambda>r. evaluate_rule r tier trust limit action amount
        (case opt_context of None \<Rightarrow> [] | Some c \<Rightarrow> c) = Inr True) rs
    \<longrightarrow> evaluate \<lparr>rules = rs, policy_version = v\<rparr>
          tier trust limit action amount opt_context =
        Inr \<lparr>ev_verdict = JStr ''allow'', ev_reason = AllPassed, ev_rules_checked = length rs\<rparr>) \<and>
   evaluate \<lparr>rules = [], policy_version = v\<rparr> tier trust limit action amount opt_context =
     Inr \<lparr>ev_verdict = JStr ''allow'', ev_reason = AllPassed, ev_rules_checked = 0\<rparr>"
  using evaluate_loop_first_fail [of tier trust limit action amount _ pre r post 0]
    evaluate_loop_all_pass [of tier trust limit action amount _ rs 0]
  by (simp add: evaluate_def)

theorem evaluate_first_failing_rule_decides_witness:
  "evaluate \<lparr>rules = [[(''name'', JStr ''POL-1''), (''type'', JStr ''amount_limit''),
                          (''max_amount'', JInt 100000), (''on_fail'', JStr ''deny'')],
                         [(''name'', JStr ''POL-2''), (''type'', JStr ''authority_limit''),
                          (''on_fail'', JStr ''escalate'')]],
             policy_version = ''v1''\<rparr>
       ''T2'' (8 / 10) 50000 ''write'' 80000 None =
     Inr \<lparr>ev_verdict = JStr ''escalate'', ev_reason = RuleFailed (JStr ''POL-2''),
          ev_rules_checked = 2\<rparr> \<and>
   evaluate \<lparr>rules = [[(''name'', JStr ''POL-1''), (''type'', JStr ''amount_limit''),
                          (''max_amount'', JInt 100000), (''on_fail'', JStr ''deny'')]],
             policy_version = ''v1''\<rparr>
       ''T2'' (8 / 10) 50000 ''write'' 80000 None =
     Inr \<lparr>ev_verdict = JStr ''allow'', ev_reason = AllPassed, ev_rules_checked = 1\<rparr>"
  using evaluate_first_failing_rule_decides
    [where tier = "''T2''" and trust = "8 / 10" and limit = "50000"
       and action = "''write''" and amount = "80000" and opt_context = None
       and pre = "[[(''name'', JStr ''POL-1''), (''type'', JStr ''amount_limit''),
                    (''max_amount'', JInt 100000), (''on_fail'', JStr ''deny'')]]"
       and r = "[(''name'', JStr ''POL-2''), (''type'', JStr ''authority_limit''),
                 (''on_fail'', JStr ''escalate'')]"
       and post = "[]" and v = "''v1''"
       and rs = "[[(''name'', JStr ''POL-1''), (''type'', JStr ''amount_limit''),
                   (''max_amount'', JInt 100000), (''on_fail'', JStr ''deny'')]]"]
  by (simp add: evaluate_rule_def dict_get_def float_le_json_def)

text \<open>
  Claim C6, as stated, fails. The edge enforcer has no branch for \<open>status_check\<close> and
  is given no agent status: a rule of that type falls through to the final
  \<open>return True\<close>. Here the only place a status could travel, the context dictionary, says the
  agent is suspended; the rule passes and the verdict is \<open>allow\<close>, not the rule's
  \<open>deny\<close>.
\<close>

theorem status_check_passes_suspended_agent:
  "evaluate_rule [(''name'', JStr ''POL-9''), (''type'', JStr ''status_check''),
                  (''on_fail'', JStr ''deny'')]
       ''T2'' (8 / 10) 50000 ''write'' 45000
       [(''status'', JStr ''suspended'')] = Inr True \<and>
   evaluate \<lparr>rules = [[(''name'', JStr ''POL-9''), (''type'', JStr ''status_check''),
                          (''on_fail'', JStr ''deny'')]],
             policy_version = ''v1''\<rparr>
       ''T2'' (8 / 10) 50000 ''write'' 45000
       (Some [(''status'', JStr ''suspended'')]) =
     Inr \<lparr>ev_verdict = JStr ''allow'', ev_reason = AllPassed, ev_rules_checked = 1\<rparr>"
  by (simp add: evaluate_def evaluate_rule_def dict_get_def)

text \<open>
  Claim C6, amended. At the edge a rule of type \<open>status_check\<close> is an unknown rule
  type: the local enforcer passes it for every agent, action and context dictionary, whatever the
  agent's status, so it never produces the rule's \<open>on_fail\<close> verdict.
\<close>

theorem status_check_always_passes_at_edge:
  "dict_get rule ''type'' (JStr '''') = JStr ''status_check'' \<Longrightarrow>
   evaluate_rule rule tier trust limit action amount ctx = Inr True"
  by (simp add: evaluate_rule_def)

theorem status_check_always_passes_at_edge_witness:
  "dict_get [(''type'', JStr ''status_check''), (''on_fail'', JStr ''deny'')] ''type'' (JStr '''')
     = JStr ''status_check'' \<and>
   evaluate_rule [(''type'', JStr ''status_check''), (''on_fail'', JStr ''deny'')]
     ''T4'' (1 / 10) 0 ''execute'' 999
     [(''status'', JStr ''revoked'')] = Inr True"
  using status_check_always_passes_at_edge
    [of "[(''type'', JStr ''status_check''), (''on_fail'', JStr ''deny'')]"
        "''T4''" "1 / 10" "0" "''execute''" "999"
        "[(''status'', JStr ''revoked'')]"]
  by (simp add: dict_get_def)

section \<open>Properties of the prophecy engine\<close>

lemma prophecy_roundings:
  "py_round (57 / 100) 3 = 57 / 100" "py_round (172 / 625) 3 = 11 / 40"
  "py_round (3 / 100) 3 = 3 / 100" "py_round (117 / 200) 3 = 117 / 200"
  "py_round (1 / 20) 3 = 1 / 20" "py_round (3 / 20) 3 = 3 / 20"
  "py_round 5130 2 = 5130" "py_round 450 2 = 450" "py_round (81 / 100) 3 = 81 / 100"
  by code_simp+

lemma approve_at_boundary:
  "simulate_approve (11 / 20) (9 / 10) (4 / 5) 9000 tier =
     \<lparr>pp_path_type = ''approve'', pp_predicted_trust_delta = 1 / 100,
      pp_risk_score = 57 / 100, pp_financial_exposure = 5130,
      pp_compliance_risk = ''medium'', pp_cascade_effects = [UsesShareOfLimit],
      pp_recommendation_weight = 275 / 1000,
      pp_reasoning = ''Moderate success rate - approve with monitoring''\<rparr>"
  by (simp add: simulate_approve_def Let_def prophecy_roundings)

lemma deny_at_boundary:
  "simulate_deny (11 / 20) (9 / 10) 9000 tier =
     \<lparr>pp_path_type = ''deny'',
      pp_predicted_trust_delta = (if tier = ''T1'' \<or> tier = ''T2'' then - (1 / 100) else 0),
      pp_risk_score = 5 / 100, pp_financial_exposure = 0, pp_compliance_risk = ''none'',
      pp_cascade_effects =
        [TaskMayStall] @ (if tier = ''T1'' \<or> tier = ''T2'' then [SeniorAgentBlocked] else []),
      pp_recommendation_weight = 3 / 100,
      pp_reasoning = ''Deny is safest but may cause operational delays''\<rparr>"
  by (simp add: simulate_deny_def Let_def prophecy_roundings)

lemma escalate_at_boundary:
  "simulate_escalate (11 / 20) (9 / 10) 9000 tier =
     \<lparr>pp_path_type = ''escalate'', pp_predicted_trust_delta = 2 / 100,
      pp_risk_score = 15 / 100, pp_financial_exposure = 450, pp_compliance_risk = ''low'',
      pp_cascade_effects = [DelayedForReview], pp_recommendation_weight = 585 / 1000,
      pp_reasoning = ''Escalation provides human oversight - moderate delay cost''\<rparr>"
  by (simp add: simulate_escalate_def Let_def prophecy_roundings)

lemma simulate_at_boundary:
  "simulate a act 9000 (11 / 20) tier 10000 (4 / 5) why now =
     \<lparr>pz_agent_id = a, pz_action_type = act, pz_amount = 9000,
      pz_paths = [simulate_approve (11 / 20) (9 / 10) (4 / 5) 9000 tier,
                  simulate_deny (11 / 20) (9 / 10) 9000 tier,
                  simulate_escalate (11 / 20) (9 / 10) 9000 tier],
      pz_recommended_path = ''escalate'', pz_confidence = 81 / 100,
      pz_trigger_reason = why, pz_computed_at = now\<rparr>"
  unfolding simulate_def Let_def
  by (simp add: approve_at_boundary deny_at_boundary escalate_at_boundary prophecy_roundings)

text \<open>
  Claim C9, as stated, fails. With amount 9000 and authority limit 10000 the authority
  ratio is exactly 0.9, which is not greater than 0.90: the 0.2 is not added. The approve
  path has risk 0.57, not 0.77, and weight 0.275, not 0.147.
\<close>

theorem prophecy_approve_risk_is_not_077:
  "pp_risk_score (pz_paths (simulate ''agent-7'' ''write'' 9000 (55 / 100) ''T3'' 10000
       (8 / 10) ''trust below 0.6''
       \<lparr>year = 2026, month = 3, day = 1, hour = 12, minute = 0, second = 0,
        microsecond = 0, tz_utc = True\<rparr>) ! 0) = 57 / 100 \<and>
   pp_risk_score (pz_paths (simulate ''agent-7'' ''write'' 9000 (55 / 100) ''T3'' 10000
       (8 / 10) ''trust below 0.6''
       \<lparr>year = 2026, month = 3, day = 1, hour = 12, minute = 0, second = 0,
        microsecond = 0, tz_utc = True\<rparr>) ! 0) \<noteq> 77 / 100 \<and>
   pp_recommendation_weight (pz_paths (simulate ''agent-7'' ''write'' 9000 (55 / 100) ''T3''
       10000 (8 / 10) ''trust below 0.6''
       \<lparr>year = 2026, month = 3, day = 1, hour = 12, minute = 0, second = 0,
        microsecond = 0, tz_utc = True\<rparr>) ! 0) \<noteq> 147 / 1000"
  by (simp add: simulate_at_boundary approve_at_boundary)

text \<open>
  Claim C9, amended. For trust score 0.55, authority limit 10000, amount 9000, any tier
  and historical success rate 0.8, the simulation produces exactly three paths, approve,
  deny and escalate in this order: approve with risk 0.57 (0.3 + 0.3 * 0.9, nothing
  added since the ratio 0.9 does not exceed 0.9), trust delta +0.01 and weight 0.275;
  deny with weight 0.03; escalate with weight 0.585. The recommended path is escalate,
  the path of the largest weight.
\<close>

theorem prophecy_boundary_scenario:
  "simulate a act 9000 (55 / 100) tier 10000 (8 / 10) why now =
     \<lparr>pz_agent_id = a, pz_action_type = act, pz_amount = 9000,
      pz_paths =
        [\<lparr>pp_path_type = ''approve'', pp_predicted_trust_delta = 1 / 100,
          pp_risk_score = 57 / 100, pp_financial_exposure = 5130,
          pp_compliance_risk = ''medium'', pp_cascade_effects = [UsesShareOfLimit],
          pp_recommendation_weight = 275 / 1000,
          pp_reasoning = ''Moderate success rate - approve with monitoring''\<rparr>,
         \<lparr>pp_path_type = ''deny'',
          pp_predicted_trust_delta =
            (if tier = ''T1'' \<or> tier = ''T2'' then - (1 / 100) else 0),
          pp_risk_score = 5 / 100, pp_financial_exposure = 0,
          pp_compliance_risk = ''none'',
          pp_cascade_effects =
            [TaskMayStall]
            @ (if tier = ''T1'' \<or> tier = ''T2'' then [SeniorAgentBlocked] else []),
          pp_recommendation_weight = 3 / 100,
          pp_reasoning = ''Deny is safest but may cause operational delays''\<rparr>,
         \<lparr>pp_path_type = ''escalate'', pp_predicted_trust_delta = 2 / 100,
          pp_risk_score = 15 / 100, pp_financial_exposure = 450,
          pp_compliance_risk = ''low'', pp_cascade_effects = [DelayedForReview],
          pp_recommendation_weight = 585 / 1000,
          pp_reasoning = ''Escalation provides human oversight - moderate delay cost''\<rparr>],
      pz_recommended_path = ''escalate'', pz_confidence = 81 / 100,
      pz_trigger_reason = why, pz_computed_at = now\<rparr>"
  by (simp add: simulate_at_boundary approve_at_boundary deny_at_boundary
        escalate_at_boundary)

section \<open>Properties of the edge verifier and of the gateway's mode\<close>

text \<open>
  Claim C10. After \<open>update_revocation_list(L)\<close> the verifier's revocation set is the
  set of the jtis in \<open>L\<close>: a token that decodes (well-formed, signed with the secret,
  unexpired) is rejected as revoked exactly when its jti is in \<open>L\<close>, and is accepted
  with its claims when it is not, whatever the set held before the call.
\<close>

theorem update_revocation_list_replaces_the_set:
  "pv_revocation_set (update_revocation_list v L) = set L \<and>
   (jwt_decode tok (pv_jwt_secret v) (pv_algorithm v) (timestamp now) = Inr p \<longrightarrow>
      (verifier_verify (update_revocation_list v L) tok now =
         Inr \<lparr>vr_valid = False, vr_claims = None, vr_reason = ''passport revoked'',
              vr_mode = pv_mode v\<rparr>) = (jwt_jti p \<in> set L) \<and>
      (verifier_verify (update_revocation_list v L) tok now =
         Inr \<lparr>vr_valid = True, vr_claims = Some p, vr_reason = '''',
              vr_mode = pv_mode v\<rparr>) = (jwt_jti p \<notin> set L))"
  by (simp add: update_revocation_list_def verifier_verify_def)

theorem update_revocation_list_replaces_the_set_witness:
  "jwt_decode token_J1 (pv_jwt_secret (dev_verifier\<lparr>pv_revocation_set := {''J-1''}\<rparr>))
     (pv_algorithm (dev_verifier\<lparr>pv_revocation_set := {''J-1''}\<rparr>))
     (timestamp noon_1_march) = Inr payload_J1 \<and>
   verifier_verify (dev_verifier\<lparr>pv_revocation_set := {''J-1''}\<rparr>) token_J1 noon_1_march =
     Inr \<lparr>vr_valid = False, vr_claims = None, vr_reason = ''passport revoked'',
          vr_mode = ''online''\<rparr> \<and>
   verifier_verify
     (update_revocation_list (dev_verifier\<lparr>pv_revocation_set := {''J-1''}\<rparr>) [''J-9''])
     token_J1 noon_1_march =
     Inr \<lparr>vr_valid = True, vr_claims = Some payload_J1, vr_reason = '''',
          vr_mode = ''online''\<rparr>"
  using update_revocation_list_replaces_the_set
    [of "dev_verifier\<lparr>pv_revocation_set := {''J-1''}\<rparr>" "[''J-9'']" token_J1 noon_1_march
        payload_J1]
  by (simp add: dev_verifier_def new_PassportVerifier_def token_J1_def payload_J1_def
        scenario_clock verifier_verify_def)

lemma sync_revocation_list_keeps_mode:
  "pv_mode (snd (sync_revocation_list v outcome)) = pv_mode v"
  by (simp add: sync_revocation_list_def update_revocation_list_def Let_def
        split: http_outcome.splits)

lemma trigger_sync_keeps_mode:
  "pv_mode (gw_verifier (snd (trigger_sync gw p r))) = pv_mode (gw_verifier gw)"
  using sync_revocation_list_keeps_mode [of "gw_verifier gw" r]
  by (auto simp: trigger_sync_def Let_def split: prod.splits)

lemma sync_rounds_keep_mode:
  "pv_mode (gw_verifier (sync_rounds gw outcomes)) = pv_mode (gw_verifier gw)"
proof (induction outcomes arbitrary: gw)
  case Nil
  show ?case by (simp add: sync_rounds_def)
next
  case (Cons x xs)
  obtain p r where x: "x = (p, r)" by (cases x)
  have "sync_rounds gw (x # xs) = sync_rounds (snd (trigger_sync gw p r)) xs"
    by (simp add: sync_rounds_def x)
  then show ?case
    using Cons.IH [of "snd (trigger_sync gw p r)"] trigger_sync_keeps_mode [of gw p r]
    by simp
qed

lemma startup_mode:
  "pv_mode (gw_verifier (startup gid env url secret p r)) = ''online''"
  using sync_revocation_list_keeps_mode [of "new_PassportVerifier secret url HS256" r]
  by (simp add: startup_def new_PassportVerifier_def)

lemma authorize_response_mode:
  "fst (authorize gw req t_verify fresh_id t_record latency) = Inr resp \<Longrightarrow>
   rs_mode resp = pv_mode (gw_verifier gw)"
  by (auto simp: authorize_def Let_def
        split: sum.splits if_splits prod.splits json.splits pyerror.splits)

text \<open>
  Claim C8 against the code. The verifier's mode is set to \<open>online\<close> when it is made
  and nothing sets it afterwards: after a startup and any run of sync attempts, failed
  ones included, \<open>/status\<close> reports \<open>online\<close> and so does every authorize response.
\<close>

theorem mode_stays_online_whatever_the_syncs:
  "st_mode (status (sync_rounds (startup gid env url secret p r) outcomes) now) = ''online'' \<and>
   (case fst (authorize (sync_rounds (startup gid env url secret p r) outcomes)
                req t_verify fresh_id t_record latency) of
      Inr resp \<Rightarrow> rs_mode resp = ''online''
    | Inl e \<Rightarrow> True)"
  using authorize_response_mode
    [of "sync_rounds (startup gid env url secret p r) outcomes" req t_verify fresh_id
        t_record latency]
  by (simp add: status_def sync_rounds_keep_mode startup_mode split: sum.splits)

section \<open>Properties of the passport service\<close>

lemma signature_ok_can_sign: "signature_ok a k k' \<Longrightarrow> can_sign a k \<and> can_verify a k'"
  by (cases a; cases k; cases k') simp_all

lemma verify_Inr_D:
  "verify self tok now = Inr d \<Longrightarrow>
   jwt_decode tok (ps_public_key self) (ps_algorithm self) (timestamp now) = Inr d \<and>
   jwt_jti d \<notin> ps_revocation_set self"
  by (auto simp: verify_def split: sum.splits if_splits)

lemma jwt_decode_Inr_D:
  "jwt_decode tok k a now = Inr d \<Longrightarrow>
   (\<exists>k'. tok = Jwt a k' d \<and> can_verify a k \<and> signature_ok a k' k) \<and>
   now < of_int (jwt_exp d)"
  by (cases tok) (auto split: if_splits)

text \<open>
  Claim C2, as stated, fails for an expired old token. The token \<open>J-1\<close> expired at
  noon on 2 March; a rotation at noon on 3 March finds that \<open>verify\<close> raises, swallows
  the exception and revokes nothing. Afterwards \<open>J-1\<close> is not in the revocation set and
  verifying the old token fails as expired, not as revoked.
\<close>

theorem rotate_expired_token_revokes_nothing:
  "fst (rotate_passport dev_service token_J1 passport_J2 noon_3_march) =
     Inr (Jwt HS256 (Secret ''dev-shared-secret'') (issue_payload passport_J2 noon_3_march)) \<and>
   ''J-1'' \<notin> ps_revocation_set (snd (rotate_passport dev_service token_J1 passport_J2 noon_3_march)) \<and>
   verify (snd (rotate_passport dev_service token_J1 passport_J2 noon_3_march)) token_J1 noon_3_march =
     Inl ExpiredSignatureError"
  by (simp add: rotate_passport_def verify_def issue_def jwt_encode_def dev_service_def
        new_PassportService_def token_J1_def payload_J1_def scenario_clock)

text \<open>
  Claim C2, amended. For every old token that verifies at the time of the call (well
  formed, signed with the service's key, unexpired and not yet revoked) and every new
  passport whose jti is neither the old one nor revoked, on a service whose two keys
  belong together, \<open>rotate\<close> adds the old token's jti to the revocation set and returns
  the new token. Afterwards verifying the old token fails, as revoked while it is
  unexpired and as expired from its expiry on, and verifying the new token returns the
  new claims until the new passport expires. For an old token that does not verify (an
  expired one included) the revocation set is left as it was.
\<close>

theorem rotate_revokes_a_verified_old_token:
  assumes "signature_ok (ps_algorithm self) (ps_private_key self) (ps_public_key self)"
    and "ap_jti new_passport \<notin> ps_revocation_set self"
  shows
    "(verify self old_token now = Inr old_decoded \<and> ap_jti new_passport \<noteq> jwt_jti old_decoded
      \<longrightarrow>
        fst (rotate_passport self old_token new_passport now) =
          Inr (Jwt (ps_algorithm self) (ps_private_key self) (issue_payload new_passport now)) \<and>
        ps_revocation_set (snd (rotate_passport self old_token new_passport now)) =
          insert (jwt_jti old_decoded) (ps_revocation_set self) \<and>
        verify (snd (rotate_passport self old_token new_passport now)) old_token later =
          (if of_int (jwt_exp old_decoded) \<le> timestamp later then Inl ExpiredSignatureError
           else Inl ValueError) \<and>
        verify (snd (rotate_passport self old_token new_passport now))
            (Jwt (ps_algorithm self) (ps_private_key self) (issue_payload new_passport now))
            later =
          (if of_int (jwt_exp (issue_payload new_passport now)) \<le> timestamp later
           then Inl ExpiredSignatureError
           else Inr (issue_payload new_passport now))) \<and>
     (verify self old_token now = Inl e \<longrightarrow>
        fst (rotate_passport self old_token new_passport now) =
          Inr (Jwt (ps_algorithm self) (ps_private_key self) (issue_payload new_passport now)) \<and>
        snd (rotate_passport self old_token new_passport now) = self)"
proof -
  have keys: "can_sign (ps_algorithm self) (ps_private_key self)"
    "can_verify (ps_algorithm self) (ps_public_key self)"
    using signature_ok_can_sign [OF assms(1)] by simp_all
  have new_jti: "jwt_jti (issue_payload new_passport now) = ap_jti new_passport"
    by (simp add: issue_payload_def)
  have failing: "verify self old_token now = Inl e \<longrightarrow>
        fst (rotate_passport self old_token new_passport now) =
          Inr (Jwt (ps_algorithm self) (ps_private_key self) (issue_payload new_passport now)) \<and>
        snd (rotate_passport self old_token new_passport now) = self"
    using keys by (simp add: rotate_passport_def issue_def jwt_encode_def)
  have verifying: "fst (rotate_passport self old_token new_passport now) =
          Inr (Jwt (ps_algorithm self) (ps_private_key self) (issue_payload new_passport now)) \<and>
        ps_revocation_set (snd (rotate_passport self old_token new_passport now)) =
          insert (jwt_jti old_decoded) (ps_revocation_set self) \<and>
        verify (snd (rotate_passport self old_token new_passport now)) old_token later =
          (if of_int (jwt_exp old_decoded) \<le> timestamp later then Inl ExpiredSignatureError
           else Inl ValueError) \<and>
        verify (snd (rotate_passport self old_token new_passport now))
            (Jwt (ps_algorithm self) (ps_private_key self) (issue_payload new_passport now))
            later =
          (if of_int (jwt_exp (issue_payload new_passport now)) \<le> timestamp later
           then Inl ExpiredSignatureError
           else Inr (issue_payload new_passport now))"
    if v: "verify self old_token now = Inr old_decoded"
      and fresh: "ap_jti new_passport \<noteq> jwt_jti old_decoded"
  proof -
    from verify_Inr_D [OF v] jwt_decode_Inr_D
    obtain k' where tok: "old_token = Jwt (ps_algorithm self) k' old_decoded"
      and sig: "signature_ok (ps_algorithm self) k' (ps_public_key self)"
      by blast
    have r: "rotate_passport self old_token new_passport now =
        (Inr (Jwt (ps_algorithm self) (ps_private_key self) (issue_payload new_passport now)),
         revoke self (jwt_jti old_decoded))"
      using keys v by (simp add: rotate_passport_def issue_def jwt_encode_def revoke_def)
    show ?thesis
      unfolding r
      using keys sig assms fresh
      by (simp add: tok revoke_def verify_def new_jti)
  qed
  from failing verifying show ?thesis by blast
qed

theorem rotate_revokes_a_verified_old_token_witness:
  "verify dev_service token_J1 noon_1_march = Inr payload_J1 \<and>
   fst (rotate_passport dev_service token_J1 passport_J2 noon_1_march) =
     Inr (Jwt HS256 (Secret ''dev-shared-secret'') (issue_payload passport_J2 noon_1_march)) \<and>
   ps_revocation_set (snd (rotate_passport dev_service token_J1 passport_J2 noon_1_march)) = {''J-1''} \<and>
   verify (snd (rotate_passport dev_service token_J1 passport_J2 noon_1_march)) token_J1 noon_1_march =
     Inl ValueError \<and>
   verify (snd (rotate_passport dev_service token_J1 passport_J2 noon_1_march))
       (Jwt HS256 (Secret ''dev-shared-secret'') (issue_payload passport_J2 noon_1_march))
       noon_2_march =
     Inr (issue_payload passport_J2 noon_1_march) \<and>
   verify dev_service token_J1 noon_3_march = Inl ExpiredSignatureError \<and>
   snd (rotate_passport dev_service token_J1 passport_J2 noon_3_march) = dev_service"
proof -
  have v1: "verify dev_service token_J1 noon_1_march = Inr payload_J1"
    by (simp add: verify_def dev_service_def new_PassportService_def token_J1_def
          payload_J1_def scenario_clock)
  have v3: "verify dev_service token_J1 noon_3_march = Inl ExpiredSignatureError"
    by (simp add: verify_def dev_service_def new_PassportService_def token_J1_def
          payload_J1_def scenario_clock)
  have pre: "signature_ok (ps_algorithm dev_service) (ps_private_key dev_service)
               (ps_public_key dev_service)"
    "ap_jti passport_J2 \<notin> ps_revocation_set dev_service"
    by (simp_all add: dev_service_def new_PassportService_def passport_J2_def)
  have fields: "ps_algorithm dev_service = HS256"
    "ps_private_key dev_service = Secret ''dev-shared-secret''"
    "ps_revocation_set dev_service = {}" "jwt_jti payload_J1 = ''J-1''"
    "jwt_exp payload_J1 = 1772452800" "ap_jti passport_J2 = ''J-2''"
    "jwt_exp (issue_payload passport_J2 noon_1_march) = 1772539200"
    by (simp_all add: dev_service_def new_PassportService_def payload_J1_def
          passport_J2_def issue_payload_def scenario_clock py_int_def)
  show ?thesis
    using rotate_revokes_a_verified_old_token
            [OF pre, of token_J1 noon_1_march payload_J1 noon_1_march ExpiredSignatureError]
          rotate_revokes_a_verified_old_token
            [OF pre, of token_J1 noon_1_march payload_J1 noon_2_march ExpiredSignatureError]
          rotate_revokes_a_verified_old_token
            [OF pre, of token_J1 noon_3_march payload_J1 noon_3_march ExpiredSignatureError]
          v1 v3
    by (simp add: fields scenario_clock)
qed

section \<open>Properties of the policy store\<close>

lemma dict_display_three:
  "k1 \<noteq> k2 \<Longrightarrow> k1 \<noteq> k3 \<Longrightarrow> k2 \<noteq> k3 \<Longrightarrow>
   dict_display [(k1, v1), (k2, v2), (k3, v3)] = [(k1, v1), (k2, v2), (k3, v3)]"
  by (simp add: dict_display_def)

lemma PolicyBundle_payload_items:
  "PolicyBundle_payload b =
     [(''version'', JStr (pb_version b)),
      (''rules'', JList (map (\<lambda>r. JObj (PolicyRule_to_dict r)) (pb_rules b))),
      (''parent_hash'', JStr (pb_parent_hash b))]"
  by (simp add: PolicyBundle_payload_def dict_display_three)

lemma payload_ignores_hash:
  "PolicyBundle_payload (b\<lparr>pb_hash := h\<rparr>) = PolicyBundle_payload b"
  "spec_PolicyBundle_payload (b\<lparr>pb_hash := h\<rparr>) = spec_PolicyBundle_payload b"
  by (simp_all add: PolicyBundle_payload_def spec_PolicyBundle_payload_def)

lemma new_PolicyBundle_fields:
  "pb_version (new_PolicyBundle v rs parent m now fid) = v"
  "pb_rules (new_PolicyBundle v rs parent m now fid) = rs"
  "pb_parent_hash (new_PolicyBundle v rs parent m now fid) = parent"
  "pb_hash (new_PolicyBundle v rs parent m now fid) =
     PolicyBundle_compute_hash (new_PolicyBundle v rs parent m now fid)"
  by (simp_all add: new_PolicyBundle_def Let_def PolicyBundle_compute_hash_def
        PolicyBundle_payload_items)

lemma create_bundle_result:
  "fst (create_bundle self rs version metadata now fid) =
     new_PolicyBundle
       (if version = [] then
          ''v'' @ strftime_Ymd now @ ''-'' @ zfill 3 (str_nat (length (pd_bundles self) + 1))
        else version)
       rs (case pd_current self of Some c \<Rightarrow> pb_hash c | None \<Rightarrow> '''')
       (case metadata of None \<Rightarrow> [] | Some m \<Rightarrow> m) now fid"
  "pd_bundles (snd (create_bundle self rs version metadata now fid)) =
     pd_bundles self @ [fst (create_bundle self rs version metadata now fid)]"
  "pd_current (snd (create_bundle self rs version metadata now fid)) =
     Some (fst (create_bundle self rs version metadata now fid))"
  by (simp_all add: create_bundle_def Let_def)

lemma texts_of_first_bundle_differ:
  "json_dumps (JObj (PolicyBundle_payload bundle_v1_unhashed)) \<noteq>
   json_dumps (JObj (spec_PolicyBundle_payload bundle_v1_unhashed))"
  by code_simp

lemma first_bundle:
  "fst (create_bundle new_PolicyDistributionService [rule_POL1, rule_POL2] ''v1'' None
          noon_1_march ''b-1'') =
   bundle_v1_unhashed\<lparr>pb_hash := PolicyBundle_compute_hash bundle_v1_unhashed\<rparr>"
  by (simp add: create_bundle_def new_PolicyBundle_def new_PolicyDistributionService_def
        bundle_v1_unhashed_def Let_def)

text \<open>
  Claim C3, as stated, fails. A bundle published with the rules \<open>r-2\<close>, \<open>r-1\<close> in this
  order has as hash the SHA-256 of a text that lists the rules in this order; the
  canonical JSON with the rules sorted by id is a different text.
\<close>

theorem bundle_hash_text_keeps_rule_order:
  "pb_hash (fst (create_bundle new_PolicyDistributionService [rule_POL1, rule_POL2] ''v1''
                   None noon_1_march ''b-1'')) =
     sha256_hexdigest (json_dumps (JObj (PolicyBundle_payload
       (fst (create_bundle new_PolicyDistributionService [rule_POL1, rule_POL2] ''v1''
               None noon_1_march ''b-1''))))) \<and>
   json_dumps (JObj (PolicyBundle_payload
       (fst (create_bundle new_PolicyDistributionService [rule_POL1, rule_POL2] ''v1''
               None noon_1_march ''b-1'')))) \<noteq>
   json_dumps (JObj (spec_PolicyBundle_payload
       (fst (create_bundle new_PolicyDistributionService [rule_POL1, rule_POL2] ''v1''
               None noon_1_march ''b-1''))))"
  using texts_of_first_bundle_differ
  by (simp add: first_bundle payload_ignores_hash PolicyBundle_compute_hash_def)

text \<open>
  Claim C3, amended. For every published bundle \<open>b\<close>, \<open>b.hash\<close> is the SHA-256 of the
  canonical JSON (keys sorted) of \<open>{version, rules, parent_hash}\<close> with the rules in the
  order the bundle lists them, each as its \<open>to_dict\<close>; this is the payload with the
  rules sorted by id whenever the bundle lists them in ascending id order. The integrity
  check accepts a bundle exactly when recomputing this hash from its payload reproduces
  its hash, and accepts every bundle as published.
\<close>

theorem bundle_hash_is_sha256_of_payload_in_bundle_order:
  "pb_hash (fst (create_bundle self rs version metadata now fid)) =
     sha256_hexdigest (json_dumps (JObj
       [(''version'', JStr (pb_version (fst (create_bundle self rs version metadata now fid)))),
        (''rules'', JList (map (\<lambda>r. JObj (PolicyRule_to_dict r)) rs)),
        (''parent_hash'',
           JStr (pb_parent_hash (fst (create_bundle self rs version metadata now fid))))])) \<and>
   verify_integrity (fst (create_bundle self rs version metadata now fid)) \<and>
   verify_integrity b =
     (pb_hash b = sha256_hexdigest (json_dumps (JObj
        [(''version'', JStr (pb_version b)),
         (''rules'', JList (map (\<lambda>r. JObj (PolicyRule_to_dict r)) (pb_rules b))),
         (''parent_hash'', JStr (pb_parent_hash b))]))) \<and>
   (sorted (map pr_id (pb_rules b)) \<longrightarrow> PolicyBundle_payload b = spec_PolicyBundle_payload b)"
proof -
  have "sorted (map pr_id (pb_rules b)) \<Longrightarrow> sort_key pr_id (pb_rules b) = pb_rules b"
    by (rule sort_key_id_if_sorted)
  then show ?thesis
    by (auto simp: create_bundle_result new_PolicyBundle_fields verify_integrity_def
          PolicyBundle_compute_hash_def PolicyBundle_payload_items
          spec_PolicyBundle_payload_def dict_display_three)
qed

end
